theory Spec2Isabelle
  imports Complex_Main "HOL-Library.AList"
begin

section \<open>JavaScript strings and JSON values\<close>

text \<open>
  A JavaScript string is a sequence of UTF-16 code units; a code unit is modelled as a
  natural number. Literals of the source are written \<open>js ''...''\<close>.
\<close>

type_synonym jsstring = "nat list"

abbreviation js :: "string \<Rightarrow> jsstring" where
  "js s \<equiv> map of_char s"

text \<open>
  \<open>isWhiteSpace\<close> is the set that both \<^verbatim>\<open>String.prototype.trim\<close> and the regular
  expression class \<^verbatim>\<open>\s\<close> use: WhiteSpace and LineTerminator of ECMAScript.
\<close>

definition isWhiteSpace :: "nat \<Rightarrow> bool" where
  "isWhiteSpace c =
     (c = 9 \<or> c = 10 \<or> c = 11 \<or> c = 12 \<or> c = 13 \<or> c = 32 \<or> c = 160 \<or> c = 5760 \<or>
      (8192 \<le> c \<and> c \<le> 8202) \<or> c = 8232 \<or> c = 8233 \<or> c = 8239 \<or> c = 8287 \<or>
      c = 12288 \<or> c = 65279)"

definition trim :: "jsstring \<Rightarrow> jsstring" where
  "trim s = rev (dropWhile isWhiteSpace (rev (dropWhile isWhiteSpace s)))"

definition isDigit :: "nat \<Rightarrow> bool" where
  "isDigit c = (48 \<le> c \<and> c \<le> 57)"

text \<open>The character class \<^verbatim>\<open>[0-9+\s-]\<close>.\<close>

definition phoneChar :: "nat \<Rightarrow> bool" where
  "phoneChar c = (isDigit c \<or> c = 43 \<or> isWhiteSpace c \<or> c = 45)"

text \<open>\<^verbatim>\<open>/^[0-9+\s-]+$/.test(s)\<close>: one or more characters, all of the class.\<close>

definition phonePattern :: "jsstring \<Rightarrow> bool" where
  "phonePattern s = (s \<noteq> [] \<and> list_all phoneChar s)"

text \<open>
  Case folding of a regular expression with the flag \<^verbatim>\<open>i\<close> (and without \<^verbatim>\<open>u\<close>) never
  maps a code unit above 127 to an ASCII letter, so only the ASCII capitals fold.
\<close>

definition lowerAscii :: "nat \<Rightarrow> nat" where
  "lowerAscii c = (if 65 \<le> c \<and> c \<le> 90 then c + 32 else c)"

text \<open>\<^verbatim>\<open>/^https?:\/\//i.test(s)\<close>\<close>

definition httpPattern :: "jsstring \<Rightarrow> bool" where
  "httpPattern s =
     (map lowerAscii (take 7 s) = js ''http://'' \<or> map lowerAscii (take 8 s) = js ''https://'')"

text \<open>\<^verbatim>\<open>/^http:\/\//i.test(s)\<close>\<close>

definition plainHttpPattern :: "jsstring \<Rightarrow> bool" where
  "plainHttpPattern s = (map lowerAscii (take 7 s) = js ''http://'')"

text \<open>\<^verbatim>\<open>s.replace(/\/+$/, '')\<close>: the trailing run of slashes is removed.\<close>

definition stripTrailingSlashes :: "jsstring \<Rightarrow> jsstring" where
  "stripTrailingSlashes s = rev (dropWhile (\<lambda>c. c = 47) (rev s))"

text \<open>\<^verbatim>\<open>s.replace(/^http:\/\//i, 'https://')\<close>\<close>

definition upgradeToHttps :: "jsstring \<Rightarrow> jsstring" where
  "upgradeToHttps s = (if plainHttpPattern s then js ''https://'' @ drop 7 s else s)"

text \<open>Decimal digits of a number, as \<^verbatim>\<open>'' + n\<close> prints a non-negative integer.\<close>

fun digits :: "nat \<Rightarrow> jsstring" where
  "digits n = (if n < 10 then [48 + n] else digits (n div 10) @ [48 + n mod 10])"

declare digits.simps [simp del]

text \<open>
  JSON values, as \<^verbatim>\<open>JSON.parse\<close> returns them. An object keeps its properties in
  insertion order. Numbers are rationals (every finite double is one).
\<close>

datatype json =
    JNull
  | JBool bool
  | JNum rat
  | JStr jsstring
  | JArr "json list"
  | JObj "(jsstring \<times> json) list"

text \<open>Truthiness of a value; \<open>None\<close> stands for \<^verbatim>\<open>undefined\<close>.\<close>

fun truthy :: "json \<Rightarrow> bool" where
  "truthy JNull = False"
| "truthy (JBool b) = b"
| "truthy (JNum n) = (n \<noteq> 0)"
| "truthy (JStr s) = (s \<noteq> [])"
| "truthy (JArr xs) = True"
| "truthy (JObj fs) = True"

fun truthyOpt :: "json option \<Rightarrow> bool" where
  "truthyOpt None = False"
| "truthyOpt (Some v) = truthy v"

text \<open>Reading a named (non-index) property: \<open>None\<close> is \<^verbatim>\<open>undefined\<close>.\<close>

fun getProp :: "json \<Rightarrow> jsstring \<Rightarrow> json option" where
  "getProp (JObj fs) k = map_of fs k"
| "getProp v k = None"

text \<open>
  Assigning a property of an object: an existing key keeps its position, a new key goes
  last.
\<close>

fun setProp :: "json \<Rightarrow> jsstring \<Rightarrow> json \<Rightarrow> json" where
  "setProp (JObj fs) k v = JObj (AList.update k v fs)"
| "setProp w k v = w"

text \<open>\<^verbatim>\<open>x.length === 0\<close>\<close>

fun lengthIsZero :: "json \<Rightarrow> bool" where
  "lengthIsZero (JArr xs) = (xs = [])"
| "lengthIsZero (JStr s) = (s = [])"
| "lengthIsZero (JObj fs) = (map_of fs (js ''length'') = Some (JNum 0))"
| "lengthIsZero v = False"

section \<open>The order form (client)\<close>

subsection \<open>Environment of the page\<close>

text \<open>
  The collaborators of the script are its environment. A promise of a collaborator either
  resolves or rejects (one that never settles leaves the chain waiting, and no path of
  \<^verbatim>\<open>handleSubmit\<close> ends); a call of a collaborator either returns or throws. This
  holds of \<^verbatim>\<open>Store\<close>, of \<^verbatim>\<open>window.getCartTotal\<close>, of \<^verbatim>\<open>window.clearCartAfterOrder\<close>
  and of the lookup \<^verbatim>\<open>t\<close>. What the browser itself provides (\<^verbatim>\<open>alert\<close>, the reads and
  writes of the document, navigation) returns.
\<close>

datatype settle = Resolves | Rejects

datatype call = Returns | Throws

datatype getter_result = GetterThrows | GetterReturns "jsstring option"

text \<open>A lookup \<^verbatim>\<open>t(key)\<close>: it throws, or returns a string (the empty one being falsy).\<close>

datatype lookup = LookupThrows | LookupReturns jsstring

text \<open>
  The global \<^verbatim>\<open>Store\<close>. A member that is absent is \<open>None\<close>. The URL getter takes the
  number of refreshes that have completed, so that a refresh can change what it returns;
  \<open>GetterReturns None\<close> is a falsy result, and a truthy result that is not a string
  throws at \<^verbatim>\<open>.trim()\<close>, which is \<open>GetterThrows\<close>. \<open>ready\<close> is \<open>None\<close> when
  \<^verbatim>\<open>Store.ready\<close> is not a thenable. A refresh that throws or returns no promise
  rejects the chain like a rejected one.
\<close>

record store =
  getOrdersApiUrl :: "(nat \<Rightarrow> getter_result) option"
  ready :: "settle option"
  refreshFromRemote :: "settle option"
  addOrder :: "call option"

text \<open>The element \<^verbatim>\<open>#order-form\<close>: the values of its fields and its data attribute.\<close>

record order_form =
  fullNameValue :: "jsstring option"
  phoneValue :: "jsstring option"
  cityValue :: "jsstring option"
  notesValue :: "jsstring option"
  dataOrdersApiUrl :: "jsstring option"

datatype storage_read = StorageThrows | StorageValue "jsstring option"

datatype total_call = TotalAbsent | TotalThrows | TotalReturns json

datatype body_read = TextRejects | TextResolves jsstring

datatype fetch_result = FetchRejects | FetchResponse nat body_read

record env =
  storeGlobal :: "store option"
  orderForm :: "order_form option"
  metaOrdersApiUrl :: "jsstring option"
  checkoutCart :: storage_read
  jsonParse :: "jsstring \<Rightarrow> json option"
  jsonStringify :: "json \<Rightarrow> jsstring option"
  getCartTotal :: total_call
  clearCartAfterOrder :: "call option"
  translate :: "(jsstring \<Rightarrow> lookup) option"
  locationHttps :: bool
  fetch :: "jsstring \<Rightarrow> jsstring \<Rightarrow> fetch_result"
  dateIso :: jsstring

text \<open>
  What the script does to the outside, in order. \<open>BuildPayload\<close> and \<open>SaveToLocalStore\<close>
  mark the calls of \<^verbatim>\<open>buildOrderPayload\<close> and \<^verbatim>\<open>saveOrderToLocalStore\<close>; an alert
  carries the function that raised it. Console logging is left out.
\<close>

datatype alert_site = ValidationAlert | BuildAlert | SuccessAlert | FailureAlert

datatype event =
    Alert alert_site jsstring
  | BuildPayload
  | StoreGetUrl
  | StoreRefresh
  | Fetch jsstring jsstring
  | SaveToLocalStore
  | StoreAddOrder json
  | ClearCart
  | RemoveCheckoutCart
  | Navigate jsstring

text \<open>The mutable state: the guard and the submit button (when the page has one).\<close>

record button =
  disabled :: bool
  textContent :: jsstring

record state =
  submitInProgress :: bool
  submitBtn :: "button option"

datatype 'a promise = Resolved 'a | Rejected

text \<open>
  \<^verbatim>\<open>(typeof t !== 'undefined' && t(key)) ? t(key) : dflt\<close>; \<open>None\<close> when the lookup
  throws.
\<close>

definition localized :: "env \<Rightarrow> jsstring \<Rightarrow> jsstring \<Rightarrow> jsstring option" where
  "localized e key dflt =
     (case translate e of
        None \<Rightarrow> Some dflt
      | Some f \<Rightarrow>
          (case f key of
             LookupThrows \<Rightarrow> None
           | LookupReturns s \<Rightarrow> Some (if s \<noteq> [] then s else dflt)))"

subsection \<open>validateOrderForm\<close>

text \<open>\<^verbatim>\<open>v ? v.trim() : ''\<close>\<close>

definition trimmedValue :: "jsstring option \<Rightarrow> jsstring" where
  "trimmedValue v = (case v of None \<Rightarrow> [] | Some s \<Rightarrow> if s = [] then [] else trim s)"

text \<open>
  The cart snapshot as both \<^verbatim>\<open>validateOrderForm\<close> and \<^verbatim>\<open>buildOrderPayload\<close> read it:
  a failing storage read leaves the empty string, a missing or empty item gives
  \<^verbatim>\<open>'[]'\<close>, and a failing parse leaves the empty array.
\<close>

definition readCartRaw :: "env \<Rightarrow> jsstring" where
  "readCartRaw e =
     (case checkoutCart e of
        StorageThrows \<Rightarrow> []
      | StorageValue None \<Rightarrow> js ''[]''
      | StorageValue (Some s) \<Rightarrow> if s = [] then js ''[]'' else s)"

definition readCartItems :: "env \<Rightarrow> json" where
  "readCartItems e = (case jsonParse e (readCartRaw e) of None \<Rightarrow> JArr [] | Some v \<Rightarrow> v)"

definition validateOrderForm :: "env \<Rightarrow> event list \<times> bool" where
  "validateOrderForm e =
     (case orderForm e of
        None \<Rightarrow> ([], False)
      | Some form \<Rightarrow>
          let fullName = trimmedValue (fullNameValue form);
              phone = trimmedValue (phoneValue form);
              city = trimmedValue (cityValue form)
          in if fullName = [] then
               ([Alert ValidationAlert (js ''Please enter your full name'')], False)
             else if phone = [] then
               ([Alert ValidationAlert (js ''Please enter your phone number'')], False)
             else if \<not> phonePattern phone then
               ([Alert ValidationAlert (js ''Please enter a valid phone number'')], False)
             else if city = [] then
               ([Alert ValidationAlert (js ''Please enter your city'')], False)
             else
               let items = readCartItems e
               in if \<not> truthy items \<or> lengthIsZero items then
                    ([Alert ValidationAlert
                        (js ''Your cart is empty. Please add products before checkout.'')], False)
                  else ([], True))"

subsection \<open>buildOrderPayload\<close>

text \<open>\<^verbatim>\<open>formData ? formData.get(name) : ''\<close>; a missing field reads as \<^verbatim>\<open>null\<close>.\<close>

definition formField :: "order_form option \<Rightarrow> (order_form \<Rightarrow> jsstring option) \<Rightarrow> json" where
  "formField form sel =
     (case form of
        None \<Rightarrow> JStr []
      | Some f \<Rightarrow> (case sel f of None \<Rightarrow> JNull | Some s \<Rightarrow> JStr s))"

definition notesField :: "order_form option \<Rightarrow> json" where
  "notesField form =
     (case form of
        None \<Rightarrow> JStr []
      | Some f \<Rightarrow> (case notesValue f of None \<Rightarrow> JStr [] | Some s \<Rightarrow> JStr s))"

text \<open>\<open>None\<close>: the call throws (the cart total accessor is the call that can).\<close>

definition buildOrderPayload :: "env \<Rightarrow> json option" where
  "buildOrderPayload e =
     (let form = orderForm e;
          items = readCartItems e
      in case getCartTotal e of
           TotalThrows \<Rightarrow> None
         | TotalAbsent \<Rightarrow>
             Some (JObj [(js ''fullName'', formField form fullNameValue),
                         (js ''phone'', formField form phoneValue),
                         (js ''city'', formField form cityValue),
                         (js ''notes'', notesField form),
                         (js ''items'', items),
                         (js ''total'', JNum 0),
                         (js ''date'', JStr (dateIso e))])
         | TotalReturns v \<Rightarrow>
             Some (JObj [(js ''fullName'', formField form fullNameValue),
                         (js ''phone'', formField form phoneValue),
                         (js ''city'', formField form cityValue),
                         (js ''notes'', notesField form),
                         (js ''items'', items),
                         (js ''total'', if truthy v then v else JNum 0),
                         (js ''date'', JStr (dateIso e))]))"

subsection \<open>saveOrderToLocalStore, finishOrderSuccess, finishOrderFailure\<close>

definition saveOrderToLocalStore :: "env \<Rightarrow> json \<Rightarrow> event list \<times> bool" where
  "saveOrderToLocalStore e orderData =
     (case storeGlobal e of
        None \<Rightarrow> ([SaveToLocalStore], False)
      | Some S \<Rightarrow>
          (case addOrder S of
             None \<Rightarrow> ([SaveToLocalStore], False)
           | Some Returns \<Rightarrow> ([SaveToLocalStore, StoreAddOrder orderData], True)
           | Some Throws \<Rightarrow> ([SaveToLocalStore, StoreAddOrder orderData], False)))"

text \<open>
  \<^verbatim>\<open>finishOrderSuccess\<close>: the cart reset of line 115 stands outside any \<^verbatim>\<open>try\<close>, so
  a throw of it (or of the lookup) ends the function before the alert. The second
  component says whether the function returns or throws.
\<close>

definition finishOrderSuccess :: "env \<Rightarrow> event list \<times> call" where
  "finishOrderSuccess e =
     (case clearCartAfterOrder e of
        Some Throws \<Rightarrow> ([ClearCart], Throws)
      | c \<Rightarrow>
          (case localized e (js ''orderSuccess'')
                  (js ''Order submitted successfully! We will contact you soon.'') of
             None \<Rightarrow> ((if c = None then [] else [ClearCart]) @ [RemoveCheckoutCart], Throws)
           | Some msg \<Rightarrow>
               ((if c = None then [] else [ClearCart]) @
                [RemoveCheckoutCart, Alert SuccessAlert msg, Navigate (js ''./'')],
                Returns)))"

text \<open>
  \<^verbatim>\<open>finishOrderFailure\<close>: with a button on the page it is enabled, then its text is
  looked up; a throw of the lookup ends the function before the alert.
\<close>

definition finishOrderFailure :: "env \<Rightarrow> jsstring \<Rightarrow> state \<Rightarrow> state \<times> event list \<times> call" where
  "finishOrderFailure e msg st =
     (let notice = Alert FailureAlert
                     (if msg \<noteq> [] then msg
                      else js ''Unable to submit order. Please try again or contact us.'')
      in case submitBtn st of
           None \<Rightarrow> (st, [notice], Returns)
         | Some b \<Rightarrow>
             (case localized e (js ''confirmOrder'') (js ''Confirm Order'') of
                None \<Rightarrow> (st\<lparr>submitBtn := Some (b\<lparr>disabled := False\<rparr>)\<rparr>, [], Throws)
              | Some label \<Rightarrow>
                  (st\<lparr>submitBtn := Some (b\<lparr>disabled := False, textContent := label\<rparr>)\<rparr>,
                   [notice], Returns)))"

subsection \<open>Promise chains\<close>

text \<open>
  A chain of promises is its events together with how it settles. \<open>thenP\<close> is
  \<^verbatim>\<open>p.then(f)\<close>: a rejection skips the callback, and a callback's own promise is
  adopted. \<open>catchP\<close> is \<^verbatim>\<open>p.catch(h)\<close>.
\<close>

type_synonym 'a async = "event list \<times> 'a promise"

definition thenP :: "'a async \<Rightarrow> ('a \<Rightarrow> 'b async) \<Rightarrow> 'b async" where
  "thenP p f =
     (case p of
        (es, Rejected) \<Rightarrow> (es, Rejected)
      | (es, Resolved x) \<Rightarrow> (case f x of (es', r) \<Rightarrow> (es @ es', r)))"

definition catchP :: "'a async \<Rightarrow> 'a async \<Rightarrow> 'a async" where
  "catchP p h =
     (case p of
        (es, Rejected) \<Rightarrow> (case h of (es', r) \<Rightarrow> (es @ es', r))
      | (es, Resolved x) \<Rightarrow> (es, Resolved x))"

definition settled :: "settle \<Rightarrow> unit promise" where
  "settled s = (case s of Resolves \<Rightarrow> Resolved () | Rejects \<Rightarrow> Rejected)"

subsection \<open>sendOrderToApi\<close>

text \<open>\<^verbatim>\<open>r.ok\<close> of a fetch response: the status is in the range 200 to 299.\<close>

definition responseOk :: "nat \<Rightarrow> bool" where
  "responseOk status = (200 \<le> status \<and> status \<le> 299)"

definition fetchCall :: "env \<Rightarrow> jsstring \<Rightarrow> jsstring \<Rightarrow> (nat \<times> body_read) async" where
  "fetchCall e url bodyString =
     (case fetch e url bodyString of
        FetchRejects \<Rightarrow> ([Fetch url bodyString], Rejected)
      | FetchResponse status body \<Rightarrow> ([Fetch url bodyString], Resolved (status, body)))"

definition readText :: "body_read \<Rightarrow> jsstring async" where
  "readText body = (case body of TextRejects \<Rightarrow> ([], Rejected) | TextResolves text \<Rightarrow> ([], Resolved text))"

text \<open>
  Lines 139 to 148: the URL that is requested, \<open>None\<close> when the function gives up
  because the URL is missing or is not an HTTP(S) URL. The URL is a string or
  \<^verbatim>\<open>null\<close>, as the resolver returns it; the payload is a JSON value, which
  \<^verbatim>\<open>JSON.stringify\<close> turns into a string unless it throws.
\<close>

definition requestUrl :: "env \<Rightarrow> jsstring option \<Rightarrow> jsstring option" where
  "requestUrl e apiUrl =
     (let url = stripTrailingSlashes (case apiUrl of None \<Rightarrow> [] | Some s \<Rightarrow> s)
      in if url = [] \<or> \<not> httpPattern url then None
         else if locationHttps e \<and> plainHttpPattern url then Some (upgradeToHttps url)
         else Some url)"

definition sendOrderToApi :: "env \<Rightarrow> jsstring option \<Rightarrow> json \<Rightarrow> bool async" where
  "sendOrderToApi e apiUrl orderData =
     (case requestUrl e apiUrl of
        None \<Rightarrow> ([], Resolved False)
      | Some url \<Rightarrow>
          (case jsonStringify e orderData of
             None \<Rightarrow> ([], Resolved False)
           | Some bodyString \<Rightarrow>
               catchP
                 (thenP (fetchCall e url bodyString)
                    (\<lambda>(status, body).
                       thenP (readText body)
                         (\<lambda>text. if \<not> responseOk status then ([], Resolved False)
                                 else ([], Resolved True))))
                 ([], Resolved False)))"

subsection \<open>getFallbackOrdersApiUrl and getOrdersApiUrlWhenReady\<close>

text \<open>
  \<open>None\<close> is \<^verbatim>\<open>null\<close>. An attribute that is missing or empty is skipped; the form is
  asked only when the meta element gave nothing. The function's own \<^verbatim>\<open>try\<close> guards
  the reads of the document, which return here.
\<close>

definition attributeTrimmed :: "jsstring option \<Rightarrow> jsstring option" where
  "attributeTrimmed a =
     (case a of None \<Rightarrow> None | Some c \<Rightarrow> if c \<noteq> [] then Some (trim c) else None)"

definition getFallbackOrdersApiUrl :: "env \<Rightarrow> jsstring option" where
  "getFallbackOrdersApiUrl e =
     (let raw = attributeTrimmed (metaOrdersApiUrl e);
          raw' = (if raw = None \<or> raw = Some [] then
                    (case orderForm e of
                       None \<Rightarrow> raw
                     | Some form \<Rightarrow>
                         (case attributeTrimmed (dataOrdersApiUrl form) of
                            None \<Rightarrow> raw
                          | Some a \<Rightarrow> Some a))
                  else raw)
      in case raw' of
           None \<Rightarrow> None
         | Some r \<Rightarrow> if r \<noteq> [] \<and> httpPattern r then Some r else None)"

text \<open>The local function \<^verbatim>\<open>tryGet\<close>, at the time when \<open>n\<close> refreshes have completed.\<close>

definition tryGet :: "(nat \<Rightarrow> getter_result) \<Rightarrow> nat \<Rightarrow> (jsstring option) async" where
  "tryGet getter n =
     (case getter n of
        GetterThrows \<Rightarrow> ([StoreGetUrl], Rejected)
      | GetterReturns v \<Rightarrow>
          let url = trim (case v of None \<Rightarrow> [] | Some s \<Rightarrow> s)
          in ([StoreGetUrl], Resolved (if url \<noteq> [] \<and> httpPattern url then Some url else None)))"

definition waitStore :: "store \<Rightarrow> unit async" where
  "waitStore S = (case ready S of None \<Rightarrow> ([], Resolved ()) | Some s \<Rightarrow> ([], settled s))"

definition getOrdersApiUrlWhenReady :: "env \<Rightarrow> (jsstring option) async" where
  "getOrdersApiUrlWhenReady e =
     thenP ([], Resolved ())
       (\<lambda>_. case storeGlobal e of
              None \<Rightarrow> ([], Resolved (getFallbackOrdersApiUrl e))
            | Some S \<Rightarrow>
                (case getOrdersApiUrl S of
                   None \<Rightarrow> ([], Resolved (getFallbackOrdersApiUrl e))
                 | Some getter \<Rightarrow>
                     thenP (waitStore S)
                       (\<lambda>_. thenP (tryGet getter 0)
                          (\<lambda>url. case url of
                             Some u \<Rightarrow> ([], Resolved (Some u))
                           | None \<Rightarrow>
                               (case refreshFromRemote S of
                                  None \<Rightarrow> ([], Resolved (getFallbackOrdersApiUrl e))
                                | Some r \<Rightarrow>
                                    thenP ([StoreRefresh], settled r)
                                      (\<lambda>_. thenP (tryGet getter 1)
                                         (\<lambda>again. case again of
                                            Some u \<Rightarrow> ([], Resolved (Some u))
                                          | None \<Rightarrow>
                                              ([], Resolved (getFallbackOrdersApiUrl e)))))))))"

subsection \<open>handleSubmit\<close>

text \<open>
  \<^verbatim>\<open>handleSubmit\<close> runs in two parts: the synchronous part up to the start of the
  promise chain, and the chain, which runs when the promises settle. What the chain
  keeps of the first part is the payload and the button's original text.
\<close>

record pending =
  orderData :: json
  originalText :: jsstring

text \<open>
  The local function \<^verbatim>\<open>done\<close>: it resets the guard and the button first, so both are
  reset also when what follows throws. The lookup of the failure message is evaluated
  before \<^verbatim>\<open>finishOrderFailure\<close> is called.
\<close>

definition done_submit :: "env \<Rightarrow> pending \<Rightarrow> bool \<Rightarrow> state \<Rightarrow> state \<times> event list \<times> call" where
  "done_submit e p saved st =
     (let st1 = st\<lparr>submitInProgress := False,
                   submitBtn :=
                     map_option (\<lambda>b. b\<lparr>disabled := False, textContent := originalText p\<rparr>)
                       (submitBtn st)\<rparr>
      in if saved then (case finishOrderSuccess e of (es, c) \<Rightarrow> (st1, es, c))
         else
           (case localized e (js ''orderSaveError'')
                   (js ''Order could not be saved. Please try again or contact us directly.'') of
              None \<Rightarrow> (st1, [], Throws)
            | Some msg \<Rightarrow> finishOrderFailure e msg st1))"

text \<open>
  \<^verbatim>\<open>var saved = saveOrderToLocalStore(orderData); done(saved);\<close>, which the source
  writes at each of its three fallback sites. \<^verbatim>\<open>saveOrderToLocalStore\<close> returns, so the
  two lines throw exactly when \<^verbatim>\<open>done\<close> does.
\<close>

definition saveThenDone :: "env \<Rightarrow> pending \<Rightarrow> state \<Rightarrow> state \<times> event list \<times> call" where
  "saveThenDone e p st =
     (case saveOrderToLocalStore e (orderData p) of
        (es, saved) \<Rightarrow>
          (case done_submit e p saved st of (st', es', c) \<Rightarrow> (st', es @ es', c)))"

text \<open>
  How the synchronous part ends: it returns without a chain, it starts the chain, or the
  lookup of line 262 throws, after the button is disabled and before the guard is set.
\<close>

datatype sync_end = Returned | Started pending | Uncaught

definition handleSubmit_sync :: "env \<Rightarrow> state \<Rightarrow> state \<times> event list \<times> sync_end" where
  "handleSubmit_sync e st =
     (if submitInProgress st then (st, [], Returned)
      else
        case validateOrderForm e of
          (es, False) \<Rightarrow> (st, es, Returned)
        | (es, True) \<Rightarrow>
            (case buildOrderPayload e of
               None \<Rightarrow>
                 (st,
                  es @ [BuildPayload,
                        Alert BuildAlert (js ''Unable to build order. Please try again.'')],
                  Returned)
             | Some od \<Rightarrow>
                 (case submitBtn st of
                    None \<Rightarrow>
                      (st\<lparr>submitInProgress := True\<rparr>, es @ [BuildPayload],
                       Started \<lparr>orderData = od, originalText = js ''Confirm Order''\<rparr>)
                  | Some b \<Rightarrow>
                      (case localized e (js ''submitting'') (js ''Submitting...'') of
                         None \<Rightarrow>
                           (st\<lparr>submitBtn := Some (b\<lparr>disabled := True\<rparr>)\<rparr>,
                            es @ [BuildPayload], Uncaught)
                       | Some label \<Rightarrow>
                           (st\<lparr>submitBtn := Some (b\<lparr>disabled := True, textContent := label\<rparr>),
                               submitInProgress := True\<rparr>,
                            es @ [BuildPayload],
                            Started \<lparr>orderData = od, originalText = textContent b\<rparr>)))))"

text \<open>
  The handler of the final \<^verbatim>\<open>.catch\<close> (lines 301 to 305): it saves and calls
  \<^verbatim>\<open>done\<close>; when that throws, the chain ends rejected, with nothing to handle it.
\<close>

definition catchHandler :: "env \<Rightarrow> pending \<Rightarrow> state \<Rightarrow> state \<times> event list \<times> unit promise" where
  "catchHandler e p st =
     (case saveThenDone e p st of
        (st', es, Returns) \<Rightarrow> (st', es, Resolved ())
      | (st', es, Throws) \<Rightarrow> (st', es, Rejected))"

text \<open>
  A step inside the \<^verbatim>\<open>.then\<close> callbacks: when it throws, the promise of the callback
  is rejected and the handler of the final \<^verbatim>\<open>.catch\<close> runs on the state the step left.
\<close>

definition orCatch ::
  "env \<Rightarrow> pending \<Rightarrow> state \<times> event list \<times> call \<Rightarrow> state \<times> event list \<times> unit promise" where
  "orCatch e p step =
     (case step of
        (st', es, Returns) \<Rightarrow> (st', es, Resolved ())
      | (st', es, Throws) \<Rightarrow>
          (case catchHandler e p st' of (st'', es', r) \<Rightarrow> (st'', es @ es', r)))"

text \<open>
  Lines 293 to 299, the branch without a URL: the two lines in their \<^verbatim>\<open>try\<close>, whose
  handler calls \<^verbatim>\<open>done(false)\<close>.
\<close>

definition saveLocallyOnly :: "env \<Rightarrow> pending \<Rightarrow> state \<Rightarrow> state \<times> event list \<times> call" where
  "saveLocallyOnly e p st =
     (case saveThenDone e p st of
        (st', es, Returns) \<Rightarrow> (st', es, Returns)
      | (st', es, Throws) \<Rightarrow>
          (case done_submit e p False st' of (st'', es', c) \<Rightarrow> (st'', es @ es', c)))"

text \<open>
  The chain of lines 279 to 305, with the promise it ends in. A rejection of the resolver
  or of the submitter goes to the final \<^verbatim>\<open>.catch\<close>, and so does a throw inside the
  callbacks.
\<close>

definition prefixEvents ::
  "event list \<Rightarrow> state \<times> event list \<times> unit promise \<Rightarrow> state \<times> event list \<times> unit promise" where
  "prefixEvents es r = (case r of (st', es', q) \<Rightarrow> (st', es @ es', q))"

definition handleSubmit_async :: "env \<Rightarrow> pending \<Rightarrow> state \<Rightarrow> state \<times> event list \<times> unit promise" where
  "handleSubmit_async e p st =
     (case getOrdersApiUrlWhenReady e of
        (es, Rejected) \<Rightarrow> prefixEvents es (catchHandler e p st)
      | (es, Resolved apiUrl) \<Rightarrow>
          if apiUrl \<noteq> None \<and> apiUrl \<noteq> Some [] then
            (case sendOrderToApi e apiUrl (orderData p) of
               (es2, Rejected) \<Rightarrow> prefixEvents (es @ es2) (catchHandler e p st)
             | (es2, Resolved apiOk) \<Rightarrow>
                 if apiOk then prefixEvents (es @ es2) (orCatch e p (done_submit e p True st))
                 else prefixEvents (es @ es2) (orCatch e p (saveThenDone e p st)))
          else prefixEvents es (orCatch e p (saveLocallyOnly e p st)))"

text \<open>
  One submit event run to its end: the synchronous part, then the chain if one started;
  the state it leaves and its events.
\<close>

definition handleSubmit :: "env \<Rightarrow> state \<Rightarrow> state \<times> event list" where
  "handleSubmit e st =
     (case handleSubmit_sync e st of
        (st1, es, Started p) \<Rightarrow>
          (case handleSubmit_async e p st1 of (st2, es', q) \<Rightarrow> (st2, es @ es'))
      | (st1, es, ending) \<Rightarrow> (st1, es))"

section \<open>The Orders API handler (server)\<close>

subsection \<open>Request, deployment and the remote store\<close>

record request =
  reqMethod :: jsstring
  headerOrigin :: "jsstring option"
  headerReferer :: "jsstring option"
  reqBody :: "json option"

text \<open>
  What \<^verbatim>\<open>getFile\<close> returns: \<open>document\<close> is the outcome of decoding
  \<^verbatim>\<open>file.content\<close> (base64, then UTF-8, then \<^verbatim>\<open>JSON.parse\<close>), \<open>None\<close> when one
  of these throws; \<open>sha\<close> is \<^verbatim>\<open>file.sha\<close>, \<open>None\<close> when the answer has none.
  \<open>GetThrows\<close> covers a failed request, a status that is not ok and an answer that is
  not JSON.
\<close>

record repo_file =
  document :: "json option"
  sha :: "jsstring option"

datatype get_result = GetThrows jsstring | GetReturns repo_file

datatype put_result = PutThrows jsstring | PutReturns

record get_request =
  getOwner :: jsstring
  getRepo :: jsstring
  getPath :: jsstring
  getBranch :: jsstring
  getToken :: jsstring

text \<open>
  The body of the PUT request: \<open>putContent\<close> is the value that
  \<^verbatim>\<open>JSON.stringify(data, null, 2)\<close> serialises, \<open>putSha\<close> the member \<^verbatim>\<open>sha\<close> of
  the body, \<open>None\<close> when the body has none. The commit message is left out.
\<close>

record put_request =
  putOwner :: jsstring
  putRepo :: jsstring
  putPath :: jsstring
  putContent :: json
  putSha :: "jsstring option"
  putBranch :: jsstring
  putToken :: jsstring

text \<open>
  The deployment: the environment variables, the clock, \<^verbatim>\<open>new URL(x).origin\<close>
  (\<open>None\<close> when the constructor throws), \<^verbatim>\<open>JSON.parse\<close> (\<open>None\<close> when it throws) and
  the remote store behind \<^verbatim>\<open>getFile\<close> and \<^verbatim>\<open>putFile\<close>.
\<close>

record server_env =
  githubToken :: "jsstring option"
  githubOwner :: "jsstring option"
  githubRepo :: "jsstring option"
  githubBranch :: "jsstring option"
  dateNow :: nat
  urlOrigin :: "jsstring \<Rightarrow> jsstring option"
  parseJson :: "jsstring \<Rightarrow> json option"
  githubGet :: "get_request \<Rightarrow> get_result"
  githubPut :: "put_request \<Rightarrow> put_result"

text \<open>
  A response: its status, its JSON body and the value of
  \<^verbatim>\<open>Access-Control-Allow-Origin\<close> (the other three CORS headers are constants). A
  \<open>Failure\<close> body is \<^verbatim>\<open>{ error, success: false }\<close>, with \<^verbatim>\<open>detail\<close> beside it when the
  save failed; a \<open>Success\<close> body is \<^verbatim>\<open>{ success: true, ok: true, id }\<close>.
\<close>

datatype payload = Empty | Failure jsstring | Success "json option"

record response =
  status :: nat
  body :: payload
  allowOrigin :: jsstring

datatype outcome = Threw | Sent response

datatype store_call = CallGet get_request | CallPut put_request

datatype body_error = InvalidJson | UnsupportedBody

subsection \<open>The handler\<close>

definition present :: "jsstring option \<Rightarrow> bool" where
  "present v = (case v of None \<Rightarrow> False | Some s \<Rightarrow> s \<noteq> [])"

text \<open>\<^verbatim>\<open>corsHeaders\<close> and \<^verbatim>\<open>setCors\<close>, then the status and the body.\<close>

definition respond :: "jsstring \<Rightarrow> nat \<Rightarrow> payload \<Rightarrow> outcome" where
  "respond origin code b =
     Sent \<lparr>status = code, body = b, allowOrigin = (if origin = [] then js ''*'' else origin)\<rparr>"

text \<open>Line 79: the origin of the request; \<open>None\<close> when \<^verbatim>\<open>new URL\<close> throws.\<close>

definition valueOr :: "jsstring option \<Rightarrow> jsstring \<Rightarrow> jsstring" where
  "valueOr v d = (case v of None \<Rightarrow> d | Some s \<Rightarrow> if s = [] then d else s)"

definition requestOrigin :: "server_env \<Rightarrow> request \<Rightarrow> jsstring option" where
  "requestOrigin e r =
     (if present (headerOrigin r) then headerOrigin r
      else
        (case headerReferer r of
           None \<Rightarrow> Some (js ''*'')
         | Some referer \<Rightarrow> if referer = [] then Some (js ''*'') else urlOrigin e referer))"

definition parseBody :: "(jsstring \<Rightarrow> json option) \<Rightarrow> json option \<Rightarrow> body_error + json" where
  "parseBody parse raw =
     (case raw of
        None \<Rightarrow> Inr JNull
      | Some JNull \<Rightarrow> Inr JNull
      | Some (JObj fs) \<Rightarrow> Inr (JObj fs)
      | Some (JStr s) \<Rightarrow>
          if trim s = [] then Inr (JObj [])
          else (case parse s of None \<Rightarrow> Inl InvalidJson | Some v \<Rightarrow> Inr v)
      | Some v \<Rightarrow> Inl UnsupportedBody)"

text \<open>\<^verbatim>\<open>typeof v === 'object'\<close>\<close>

fun typeofObject :: "json \<Rightarrow> bool" where
  "typeofObject JNull = True"
| "typeofObject (JArr xs) = True"
| "typeofObject (JObj fs) = True"
| "typeofObject v = False"

text \<open>
  Everything before line 132: the request is answered (or the handler throws), or the
  order is accepted; then the origin and the parsed order go on.
\<close>

definition acceptOrder :: "server_env \<Rightarrow> request \<Rightarrow> outcome + (jsstring \<times> json)" where
  "acceptOrder e r =
     (case requestOrigin e r of
        None \<Rightarrow> Inl Threw
      | Some origin \<Rightarrow>
          if reqMethod r = js ''OPTIONS'' then Inl (respond origin 204 Empty)
          else if reqMethod r \<noteq> js ''POST'' then
            Inl (respond origin 405 (Failure (js ''Method not allowed'')))
          else if \<not> present (githubToken e) \<or> \<not> present (githubOwner e) \<or> \<not> present (githubRepo e)
          then Inl (respond origin 500 (Failure (js ''Orders API not configured (missing env)'')))
          else
            (case parseBody (parseJson e) (reqBody r) of
               Inl err \<Rightarrow> Inl (respond origin 400 (Failure (js ''Invalid JSON body'')))
             | Inr order \<Rightarrow>
                 if \<not> truthy order \<or> \<not> typeofObject order then
                   Inl (respond origin 400 (Failure (js ''Request body must be a JSON object'')))
                 else if \<not> truthyOpt (getProp order (js ''fullName'')) \<and>
                         \<not> truthyOpt (getProp order (js ''phone''))
                 then Inl (respond origin 400 (Failure (js ''Order must include fullName and phone'')))
                 else Inr (origin, order)))"

text \<open>\<^verbatim>\<open>a || b\<close>\<close>

definition orElse :: "json option \<Rightarrow> json \<Rightarrow> json" where
  "orElse a b = (case a of None \<Rightarrow> b | Some v \<Rightarrow> if truthy v then v else b)"

text \<open>Lines 132 and 133.\<close>

definition assignIdentity :: "nat \<Rightarrow> json \<Rightarrow> json" where
  "assignIdentity now order =
     (let order1 = setProp order (js ''id'')
                     (orElse (getProp order (js ''id'')) (JStr (js ''ord-'' @ digits now)))
      in setProp order1 (js ''status'')
           (orElse (getProp order1 (js ''status'')) (JStr (js ''pending''))))"

text \<open>
  Lines 140 to 142, as the serialised document shows them: the sequence that receives the
  order, and the document written. A property set on an array is not serialised; reading
  a property of \<^verbatim>\<open>null\<close> and setting one on a primitive throw (\<open>None\<close>).
\<close>

definition priorOrders :: "(jsstring \<times> json) list \<Rightarrow> json list" where
  "priorOrders fs = (case map_of fs (js ''orders'') of Some (JArr xs) \<Rightarrow> xs | _ \<Rightarrow> [])"

fun unshiftOrder :: "json \<Rightarrow> json \<Rightarrow> json option" where
  "unshiftOrder (JObj fs) order =
     Some (JObj (AList.update (js ''orders'') (JArr (order # priorOrders fs)) fs))"
| "unshiftOrder (JArr xs) order = Some (JArr xs)"
| "unshiftOrder v order = None"

definition branchName :: "server_env \<Rightarrow> jsstring" where
  "branchName e =
     (let b = trim (valueOr (githubBranch e) (js ''main''))
      in if b = [] then js ''main'' else b)"

definition saveFailed :: "jsstring \<Rightarrow> outcome" where
  "saveFailed origin = respond origin 500 (Failure (js ''Failed to save order''))"

text \<open>Lines 136 to 151, with \<^verbatim>\<open>getFile\<close> and \<^verbatim>\<open>putFile\<close>.\<close>

definition getRequest :: "server_env \<Rightarrow> get_request" where
  "getRequest e =
     \<lparr>getOwner = valueOr (githubOwner e) [], getRepo = valueOr (githubRepo e) [],
      getPath = js ''data/store-data.json'', getBranch = branchName e,
      getToken = valueOr (githubToken e) []\<rparr>"

definition putRequest :: "server_env \<Rightarrow> json \<Rightarrow> jsstring option \<Rightarrow> put_request" where
  "putRequest e content token =
     \<lparr>putOwner = valueOr (githubOwner e) [], putRepo = valueOr (githubRepo e) [],
      putPath = js ''data/store-data.json'', putContent = content,
      putSha = (if present token then token else None),
      putBranch = branchName e, putToken = valueOr (githubToken e) []\<rparr>"

definition persistOrder :: "server_env \<Rightarrow> jsstring \<Rightarrow> json \<Rightarrow> store_call list \<times> outcome" where
  "persistOrder e origin order =
     (case githubGet e (getRequest e) of
        GetThrows m \<Rightarrow> ([CallGet (getRequest e)], saveFailed origin)
      | GetReturns f \<Rightarrow>
          (case document f of
             None \<Rightarrow> ([CallGet (getRequest e)], saveFailed origin)
           | Some data \<Rightarrow>
               (case unshiftOrder data order of
                  None \<Rightarrow> ([CallGet (getRequest e)], saveFailed origin)
                | Some newData \<Rightarrow>
                    (case githubPut e (putRequest e newData (sha f)) of
                       PutThrows m \<Rightarrow>
                         ([CallGet (getRequest e), CallPut (putRequest e newData (sha f))],
                          saveFailed origin)
                     | PutReturns \<Rightarrow>
                         ([CallGet (getRequest e), CallPut (putRequest e newData (sha f))],
                          respond origin 200 (Success (getProp order (js ''id''))))))))"

definition handler :: "server_env \<Rightarrow> request \<Rightarrow> store_call list \<times> outcome" where
  "handler e r =
     (case acceptOrder e r of
        Inl out \<Rightarrow> ([], out)
      | Inr (origin, order) \<Rightarrow> persistOrder e origin (assignIdentity (dateNow e) order))"

section \<open>Observations on traces\<close>



fun isNetworkCall :: "event \<Rightarrow> bool" where
  "isNetworkCall (Fetch u b) = True"
| "isNetworkCall StoreRefresh = True"
| "isNetworkCall ev = False"

fun isBuild :: "event \<Rightarrow> bool" where
  "isBuild BuildPayload = True"
| "isBuild ev = False"

text \<open>
  A terminal notification is an alert of \<^verbatim>\<open>finishOrderSuccess\<close>, of
  \<^verbatim>\<open>finishOrderFailure\<close> or of the failed build.
\<close>

fun isNotification :: "event \<Rightarrow> bool" where
  "isNotification (Alert ValidationAlert m) = False"
| "isNotification (Alert site m) = True"
| "isNotification ev = False"

fun isSuccess :: "event \<Rightarrow> bool" where
  "isSuccess (Alert SuccessAlert m) = True"
| "isSuccess ev = False"

fun isFailure :: "event \<Rightarrow> bool" where
  "isFailure (Alert FailureAlert m) = True"
| "isFailure ev = False"

fun isFallback :: "event \<Rightarrow> bool" where
  "isFallback SaveToLocalStore = True"
| "isFallback ev = False"

fun isAddOrder :: "event \<Rightarrow> bool" where
  "isAddOrder (StoreAddOrder v) = True"
| "isAddOrder ev = False"

fun isValidationAlert :: "event \<Rightarrow> bool" where
  "isValidationAlert (Alert ValidationAlert m) = True"
| "isValidationAlert ev = False"

text \<open>The events of the resolver and of the submitter.\<close>

fun isChainEvent :: "event \<Rightarrow> bool" where
  "isChainEvent StoreGetUrl = True"
| "isChainEvent StoreRefresh = True"
| "isChainEvent (Fetch u b) = True"
| "isChainEvent ev = False"

definition countEvents :: "(event \<Rightarrow> bool) \<Rightarrow> event list \<Rightarrow> nat" where
  "countEvents P es = length (filter P es)"

text \<open>
  The lookups of \<^verbatim>\<open>done\<close> and the cart reset return (none of them throws).
\<close>

definition lookupReturns :: "env \<Rightarrow> jsstring \<Rightarrow> bool" where
  "lookupReturns e key = (case translate e of None \<Rightarrow> True | Some f \<Rightarrow> f key \<noteq> LookupThrows)"

definition presentationReturns :: "env \<Rightarrow> bool" where
  "presentationReturns e =
     (clearCartAfterOrder e \<noteq> Some Throws \<and> lookupReturns e (js ''orderSuccess'') \<and>
      lookupReturns e (js ''confirmOrder'') \<and> lookupReturns e (js ''orderSaveError''))"

fun statusOf :: "outcome \<Rightarrow> nat option" where
  "statusOf Threw = None"
| "statusOf (Sent res) = Some (status res)"

text \<open>The documents, their \<^verbatim>\<open>orders\<close> and the tokens of the PUT requests of a run.\<close>

fun writtenDocuments :: "store_call list \<Rightarrow> json list" where
  "writtenDocuments [] = []"
| "writtenDocuments (CallPut pr # cs) = putContent pr # writtenDocuments cs"
| "writtenDocuments (CallGet gr # cs) = writtenDocuments cs"

definition writtenOrders :: "store_call list \<Rightarrow> json option list" where
  "writtenOrders cs = map (\<lambda>doc. getProp doc (js ''orders'')) (writtenDocuments cs)"

fun sentTokens :: "store_call list \<Rightarrow> jsstring option list" where
  "sentTokens [] = []"
| "sentTokens (CallPut pr # cs) = putSha pr # sentTokens cs"
| "sentTokens (CallGet gr # cs) = sentTokens cs"

section \<open>Validation as the specification words it\<close>

text \<open>
  The specification lists four checks in a fixed order, the first failure being the only
  one reported. These definitions follow its words, to be compared with
  \<open>validateOrderForm\<close>, which follows the source.
\<close>

datatype rejection = NameRequired | PhoneRequired | PhoneInvalid | CityRequired | CartEmpty

fun rejectionMessage :: "rejection \<Rightarrow> jsstring" where
  "rejectionMessage NameRequired = js ''Please enter your full name''"
| "rejectionMessage PhoneRequired = js ''Please enter your phone number''"
| "rejectionMessage PhoneInvalid = js ''Please enter a valid phone number''"
| "rejectionMessage CityRequired = js ''Please enter your city''"
| "rejectionMessage CartEmpty = js ''Your cart is empty. Please add products before checkout.''"

definition spec_checkName :: "order_form \<Rightarrow> rejection option" where
  "spec_checkName f = (if trimmedValue (fullNameValue f) = [] then Some NameRequired else None)"

definition spec_checkPhone :: "order_form \<Rightarrow> rejection option" where
  "spec_checkPhone f =
     (if trimmedValue (phoneValue f) = [] then Some PhoneRequired
      else if list_all phoneChar (trimmedValue (phoneValue f)) then None
      else Some PhoneInvalid)"

definition spec_checkCity :: "order_form \<Rightarrow> rejection option" where
  "spec_checkCity f = (if trimmedValue (cityValue f) = [] then Some CityRequired else None)"

definition spec_checkCart :: "env \<Rightarrow> rejection option" where
  "spec_checkCart e =
     (if \<not> truthy (readCartItems e) \<or> lengthIsZero (readCartItems e) then Some CartEmpty else None)"

fun firstRejection :: "rejection option list \<Rightarrow> rejection option" where
  "firstRejection [] = None"
| "firstRejection (None # cs) = firstRejection cs"
| "firstRejection (Some r # cs) = Some r"

definition spec_validate :: "env \<Rightarrow> order_form \<Rightarrow> rejection option" where
  "spec_validate e f =
     firstRejection [spec_checkName f, spec_checkPhone f, spec_checkCity f, spec_checkCart e]"

section \<open>Example pages, deployments and requests\<close>

text \<open>
  A page whose store has no URL until it is refreshed, with a filled form and a cart of one
  item; variants of it; a deployment with its secrets and a stored document; requests.
\<close>

definition demoUrl :: jsstring where "demoUrl = js ''https://api.example.com/orders''"

definition demoOrder :: json where "demoOrder = JObj [(js ''fullName'', JStr (js ''Amal''))]"

definition respond200 :: "jsstring \<Rightarrow> jsstring \<Rightarrow> fetch_result" where
  "respond200 url b = FetchResponse 200 (TextResolves (js ''not json''))"

definition respond500 :: "jsstring \<Rightarrow> jsstring \<Rightarrow> fetch_result" where
  "respond500 url b = FetchResponse 500 (TextResolves (js ''{}''))"

definition serialize :: "json \<Rightarrow> jsstring option" where
  "serialize v = Some (js ''{}'')"

definition parseCart :: "jsstring \<Rightarrow> json option" where
  "parseCart s = (if s = js ''[1]'' then Some (JArr [JNum 1]) else None)"

definition demoForm :: order_form where
  "demoForm = \<lparr>fullNameValue = Some (js ''Amal''), phoneValue = Some (js ''+212 612345678''),
     cityValue = Some (js ''Casablanca''), notesValue = None, dataOrdersApiUrl = None\<rparr>"

definition badPhoneForm :: order_form where
  "badPhoneForm = \<lparr>fullNameValue = Some (js ''Amal''), phoneValue = Some (js ''0612x45678''),
     cityValue = Some (js ''Casablanca''), notesValue = None, dataOrdersApiUrl = None\<rparr>"

definition urlAfterRefresh :: "nat \<Rightarrow> getter_result" where
  "urlAfterRefresh n = (if n = 0 then GetterReturns None else GetterReturns (Some demoUrl))"

definition demoStore :: store where
  "demoStore = \<lparr>getOrdersApiUrl = Some urlAfterRefresh, ready = Some Resolves,
     refreshFromRemote = Some Resolves, addOrder = Some Returns\<rparr>"


definition demoEnv :: env where
  "demoEnv = \<lparr>storeGlobal = Some demoStore, orderForm = Some demoForm, metaOrdersApiUrl = None,
     checkoutCart = StorageValue (Some (js ''[1]'')), jsonParse = parseCart,
     jsonStringify = serialize, getCartTotal = TotalReturns (JNum 120),
     clearCartAfterOrder = Some Returns, translate = None, locationHttps = True,
     fetch = respond200, dateIso = js ''2024-01-01T00:00:00.000Z''\<rparr>"


definition serverErrorEnv :: env where
  "serverErrorEnv = \<lparr>storeGlobal = Some demoStore, orderForm = Some demoForm, metaOrdersApiUrl = None,
     checkoutCart = StorageValue (Some (js ''[1]'')), jsonParse = parseCart,
     jsonStringify = serialize, getCartTotal = TotalReturns (JNum 120),
     clearCartAfterOrder = Some Returns, translate = None, locationHttps = True,
     fetch = respond500, dateIso = js ''2024-01-01T00:00:00.000Z''\<rparr>"

definition badPhoneEnv :: env where
  "badPhoneEnv = \<lparr>storeGlobal = Some demoStore, orderForm = Some badPhoneForm, metaOrdersApiUrl = None,
     checkoutCart = StorageValue (Some (js ''[1]'')), jsonParse = parseCart,
     jsonStringify = serialize, getCartTotal = TotalReturns (JNum 120),
     clearCartAfterOrder = Some Returns, translate = None, locationHttps = True,
     fetch = respond200, dateIso = js ''2024-01-01T00:00:00.000Z''\<rparr>"

definition idleState :: state where
  "idleState = \<lparr>submitInProgress = False,
     submitBtn = Some \<lparr>disabled = False, textContent = js ''Confirm Order''\<rparr>\<rparr>"

definition busyState :: state where
  "busyState = \<lparr>submitInProgress = True,
     submitBtn = Some \<lparr>disabled = True, textContent = js ''Submitting...''\<rparr>\<rparr>"

definition demoPending :: pending where
  "demoPending = \<lparr>orderData = demoOrder, originalText = js ''Confirm Order''\<rparr>"

text \<open>Pages whose cart reset throws, and a page whose store never has a URL.\<close>

definition throwingCartEnv :: env where
  "throwingCartEnv = \<lparr>storeGlobal = Some demoStore, orderForm = Some demoForm, metaOrdersApiUrl = None,
     checkoutCart = StorageValue (Some (js ''[1]'')), jsonParse = parseCart,
     jsonStringify = serialize, getCartTotal = TotalReturns (JNum 120),
     clearCartAfterOrder = Some Throws, translate = None, locationHttps = True,
     fetch = respond200, dateIso = js ''2024-01-01T00:00:00.000Z''\<rparr>"

definition throwingCartErrorEnv :: env where
  "throwingCartErrorEnv = \<lparr>storeGlobal = Some demoStore, orderForm = Some demoForm, metaOrdersApiUrl = None,
     checkoutCart = StorageValue (Some (js ''[1]'')), jsonParse = parseCart,
     jsonStringify = serialize, getCartTotal = TotalReturns (JNum 120),
     clearCartAfterOrder = Some Throws, translate = None, locationHttps = True,
     fetch = respond500, dateIso = js ''2024-01-01T00:00:00.000Z''\<rparr>"

definition localOnlyStore :: store where
  "localOnlyStore = \<lparr>getOrdersApiUrl = None, ready = None, refreshFromRemote = None,
     addOrder = Some Returns\<rparr>"

definition throwingCartLocalEnv :: env where
  "throwingCartLocalEnv = \<lparr>storeGlobal = Some localOnlyStore, orderForm = Some demoForm, metaOrdersApiUrl = None,
     checkoutCart = StorageValue (Some (js ''[1]'')), jsonParse = parseCart,
     jsonStringify = serialize, getCartTotal = TotalReturns (JNum 120),
     clearCartAfterOrder = Some Throws, translate = None, locationHttps = True,
     fetch = respond200, dateIso = js ''2024-01-01T00:00:00.000Z''\<rparr>"




definition demoBody :: "(jsstring \<times> json) list" where
  "demoBody = [(js ''fullName'', JStr (js ''Amal'')), (js ''phone'', JStr (js ''+212 612345678''))]"

definition zeroIdBody :: "(jsstring \<times> json) list" where
  "zeroIdBody = [(js ''fullName'', JStr (js ''Amal'')), (js ''id'', JNum 0)]"

definition customIdBody :: "(jsstring \<times> json) list" where
  "customIdBody = [(js ''id'', JStr (js ''my-id'')), (js ''phone'', JStr (js ''+212 612345678'')),
     (js ''status'', JStr (js ''paid''))]"

definition demoRequest :: request where
  "demoRequest = \<lparr>reqMethod = js ''POST'', headerOrigin = Some (js ''https://shop.example''),
     headerReferer = None, reqBody = Some (JObj demoBody)\<rparr>"

definition zeroIdRequest :: request where
  "zeroIdRequest = \<lparr>reqMethod = js ''POST'', headerOrigin = Some (js ''https://shop.example''),
     headerReferer = None, reqBody = Some (JObj zeroIdBody)\<rparr>"

definition customIdRequest :: request where
  "customIdRequest = \<lparr>reqMethod = js ''POST'', headerOrigin = Some (js ''https://shop.example''),
     headerReferer = None, reqBody = Some (JObj customIdBody)\<rparr>"

definition badRefererRequest :: request where
  "badRefererRequest = \<lparr>reqMethod = js ''POST'', headerOrigin = None,
     headerReferer = Some (js ''not a url''), reqBody = Some (JObj [])\<rparr>"

text \<open>
  A parser of URLs that accepts the HTTP(S) ones and throws for the rest; the origin is the
  scheme and the host.
\<close>

definition httpOrigin :: "jsstring \<Rightarrow> jsstring option" where
  "httpOrigin s =
     (if plainHttpPattern s then Some (take 7 s @ takeWhile (\<lambda>c. c \<noteq> 47) (drop 7 s))
      else if httpPattern s then Some (take 8 s @ takeWhile (\<lambda>c. c \<noteq> 47) (drop 8 s))
      else None)"

definition noJson :: "jsstring \<Rightarrow> json option" where
  "noJson s = None"

definition olderOrder :: json where
  "olderOrder = JObj [(js ''fullName'', JStr (js ''Btissam'')), (js ''id'', JStr (js ''ord-1'')),
     (js ''status'', JStr (js ''pending''))]"

definition storedFile :: "get_request \<Rightarrow> get_result" where
  "storedFile g = GetReturns \<lparr>document = Some (JObj [(js ''orders'', JArr [olderOrder])]),
     sha = Some (js ''3d21ec53a331a6f037a91c368710b99387d012c1'')\<rparr>"

definition emptyFile :: "get_request \<Rightarrow> get_result" where
  "emptyFile g = GetReturns \<lparr>document = Some (JObj []),
     sha = Some (js ''3d21ec53a331a6f037a91c368710b99387d012c1'')\<rparr>"

definition acceptingPut :: "put_request \<Rightarrow> put_result" where
  "acceptingPut pr = PutReturns"

definition conflictingPut :: "put_request \<Rightarrow> put_result" where
  "conflictingPut pr = PutThrows (js ''GitHub PUT failed: 409'')"

definition demoServer :: server_env where
  "demoServer = \<lparr>githubToken = Some (js ''token''), githubOwner = Some (js ''owner''),
     githubRepo = Some (js ''repo''), githubBranch = None, dateNow = 1700000000000,
     urlOrigin = httpOrigin, parseJson = noJson, githubGet = storedFile,
     githubPut = acceptingPut\<rparr>"

definition conflictServer :: server_env where
  "conflictServer = \<lparr>githubToken = Some (js ''token''), githubOwner = Some (js ''owner''),
     githubRepo = Some (js ''repo''), githubBranch = None, dateNow = 1700000000000,
     urlOrigin = httpOrigin, parseJson = noJson, githubGet = emptyFile,
     githubPut = conflictingPut\<rparr>"

definition unconfiguredServer :: server_env where
  "unconfiguredServer = \<lparr>githubToken = None, githubOwner = Some (js ''owner''),
     githubRepo = Some (js ''repo''), githubBranch = None, dateNow = 1700000000000,
     urlOrigin = httpOrigin, parseJson = noJson, githubGet = storedFile,
     githubPut = acceptingPut\<rparr>"

section \<open>Properties\<close>

subsection \<open>The submitter\<close>

lemma stripTrailingSlashes_Nil [simp]: "stripTrailingSlashes [] = []"
  by (simp add: stripTrailingSlashes_def)

lemma thenP_simps [simp]:
  "thenP (es, Rejected) f = (es, Rejected)"
  "thenP (es, Resolved x) f = (es @ fst (f x), snd (f x))"
  by (simp_all add: thenP_def split: prod.splits)

lemma catchP_simps [simp]:
  "catchP (es, Rejected) h = (es @ fst h, snd h)"
  "catchP (es, Resolved x) h = (es, Resolved x)"
  by (simp_all add: catchP_def split: prod.splits)

lemma sendOrderToApi_result:
  "snd (sendOrderToApi e apiUrl od) =
     Resolved (case requestUrl e apiUrl of
                 None \<Rightarrow> False
               | Some url \<Rightarrow>
                   (case jsonStringify e od of
                      None \<Rightarrow> False
                    | Some b \<Rightarrow>
                        (case fetch e url b of
                           FetchRejects \<Rightarrow> False
                         | FetchResponse st TextRejects \<Rightarrow> False
                         | FetchResponse st (TextResolves t) \<Rightarrow> responseOk st)))"
  by (simp add: sendOrderToApi_def fetchCall_def readText_def
           split: option.splits fetch_result.splits body_read.splits)

lemma sendOrderToApi_gives_up:
  "requestUrl e apiUrl = None \<or> jsonStringify e od = None \<Longrightarrow>
     sendOrderToApi e apiUrl od = ([], Resolved False)"
  by (auto simp add: sendOrderToApi_def split: option.splits)

text \<open>
  Claim C2. The promise of \<open>sendOrderToApi\<close> never rejects. It resolves to true exactly
  when the URL is usable, the payload serialises, and a response with a status from 200
  to 299 arrives and its body is read, whatever the text of the body. It resolves to
  false, without a request, for an unusable URL and for a failing serialisation; and to
  false for a rejected request, for a rejected read of the body and for any other status.
  The URL is unusable exactly when it is missing, empty after its trailing slashes are
  removed, or not an HTTP(S) URL.
\<close>

theorem sendOrderToApi_contract:
  "(\<exists>b. snd (sendOrderToApi e apiUrl od) = Resolved b) \<and>
   (snd (sendOrderToApi e apiUrl od) = Resolved True \<longleftrightarrow>
      (\<exists>url bodyString st text.
          requestUrl e apiUrl = Some url \<and> jsonStringify e od = Some bodyString \<and>
          fetch e url bodyString = FetchResponse st (TextResolves text) \<and>
          200 \<le> st \<and> st \<le> 299)) \<and>
   (requestUrl e apiUrl = None \<longrightarrow> sendOrderToApi e apiUrl od = ([], Resolved False)) \<and>
   (jsonStringify e od = None \<longrightarrow> sendOrderToApi e apiUrl od = ([], Resolved False)) \<and>
   (\<forall>url bodyString. requestUrl e apiUrl = Some url \<and> jsonStringify e od = Some bodyString \<longrightarrow>
      (fetch e url bodyString = FetchRejects \<longrightarrow>
         snd (sendOrderToApi e apiUrl od) = Resolved False) \<and>
      (\<forall>st. fetch e url bodyString = FetchResponse st TextRejects \<longrightarrow>
         snd (sendOrderToApi e apiUrl od) = Resolved False) \<and>
      (\<forall>st text. fetch e url bodyString = FetchResponse st (TextResolves text) \<longrightarrow>
         snd (sendOrderToApi e apiUrl od) = Resolved (200 \<le> st \<and> st \<le> 299))) \<and>
   (requestUrl e apiUrl = None \<longleftrightarrow>
      (case apiUrl of None \<Rightarrow> True
       | Some u \<Rightarrow> stripTrailingSlashes u = [] \<or> \<not> httpPattern (stripTrailingSlashes u)))"
proof (intro conjI)
  show "\<exists>b. snd (sendOrderToApi e apiUrl od) = Resolved b"
    by (simp add: sendOrderToApi_result)
  show "snd (sendOrderToApi e apiUrl od) = Resolved True \<longleftrightarrow>
      (\<exists>url bodyString st text.
          requestUrl e apiUrl = Some url \<and> jsonStringify e od = Some bodyString \<and>
          fetch e url bodyString = FetchResponse st (TextResolves text) \<and>
          200 \<le> st \<and> st \<le> 299)"
    by (simp add: sendOrderToApi_result responseOk_def
          split: option.splits fetch_result.splits body_read.splits)
  show "requestUrl e apiUrl = None \<longrightarrow> sendOrderToApi e apiUrl od = ([], Resolved False)"
    by (simp add: sendOrderToApi_gives_up)
  show "jsonStringify e od = None \<longrightarrow> sendOrderToApi e apiUrl od = ([], Resolved False)"
    by (simp add: sendOrderToApi_gives_up)
  show "\<forall>url bodyString. requestUrl e apiUrl = Some url \<and> jsonStringify e od = Some bodyString \<longrightarrow>
      (fetch e url bodyString = FetchRejects \<longrightarrow>
         snd (sendOrderToApi e apiUrl od) = Resolved False) \<and>
      (\<forall>st. fetch e url bodyString = FetchResponse st TextRejects \<longrightarrow>
         snd (sendOrderToApi e apiUrl od) = Resolved False) \<and>
      (\<forall>st text. fetch e url bodyString = FetchResponse st (TextResolves text) \<longrightarrow>
         snd (sendOrderToApi e apiUrl od) = Resolved (200 \<le> st \<and> st \<le> 299))"
    by (simp add: sendOrderToApi_result responseOk_def)
  show "requestUrl e apiUrl = None \<longleftrightarrow>
      (case apiUrl of None \<Rightarrow> True
       | Some u \<Rightarrow> stripTrailingSlashes u = [] \<or> \<not> httpPattern (stripTrailingSlashes u))"
    by (auto simp add: requestUrl_def Let_def split: option.splits)
qed

subsection \<open>The resolver\<close>

lemma tryGet_events [simp]: "fst (tryGet g n) = [StoreGetUrl]"
  by (simp add: tryGet_def Let_def split: getter_result.splits)


lemma tryGet_pair: "tryGet g n = ([StoreGetUrl], snd (tryGet g n))"
  by (metis prod.collapse tryGet_events)

lemma getFallback_http: "getFallbackOrdersApiUrl e = Some u \<Longrightarrow> httpPattern u"
  by (simp add: getFallbackOrdersApiUrl_def Let_def split: option.splits if_splits)

lemma resolver_unfold:
  "getOrdersApiUrlWhenReady e =
     (case storeGlobal e of
        None \<Rightarrow> ([], Resolved (getFallbackOrdersApiUrl e))
      | Some S \<Rightarrow>
          (case getOrdersApiUrl S of
             None \<Rightarrow> ([], Resolved (getFallbackOrdersApiUrl e))
           | Some g \<Rightarrow>
               if ready S = Some Rejects then ([], Rejected)
               else
                 (case snd (tryGet g 0) of
                    Rejected \<Rightarrow> ([StoreGetUrl], Rejected)
                  | Resolved (Some u) \<Rightarrow> ([StoreGetUrl], Resolved (Some u))
                  | Resolved None \<Rightarrow>
                      (case refreshFromRemote S of
                         None \<Rightarrow> ([StoreGetUrl], Resolved (getFallbackOrdersApiUrl e))
                       | Some Rejects \<Rightarrow> ([StoreGetUrl, StoreRefresh], Rejected)
                       | Some Resolves \<Rightarrow>
                           (case snd (tryGet g 1) of
                              Rejected \<Rightarrow> ([StoreGetUrl, StoreRefresh, StoreGetUrl], Rejected)
                            | Resolved (Some u) \<Rightarrow>
                                ([StoreGetUrl, StoreRefresh, StoreGetUrl], Resolved (Some u))
                            | Resolved None \<Rightarrow>
                                ([StoreGetUrl, StoreRefresh, StoreGetUrl],
                                 Resolved (getFallbackOrdersApiUrl e)))))))"
proof -
  have t: "\<And>g n f. thenP (tryGet g n) f = thenP ([StoreGetUrl], snd (tryGet g n)) f"
    using tryGet_pair by metis
  show ?thesis
    unfolding getOrdersApiUrlWhenReady_def
    by (simp add: t waitStore_def settled_def
          split: option.splits settle.splits promise.splits)
qed

lemma trim_Nil [simp]: "trim [] = []"
  by (simp add: trim_def)

lemma httpPattern_Nil [simp]: "\<not> httpPattern []"
  by (simp add: httpPattern_def)







lemma demo_tryGet0: "snd (tryGet urlAfterRefresh 0) = Resolved None"
  by (simp add: tryGet_def urlAfterRefresh_def trim_def)

lemma demo_tryGet1: "snd (tryGet urlAfterRefresh (Suc 0)) = Resolved (Some demoUrl)"
  by (simp add: tryGet_def urlAfterRefresh_def trim_def demoUrl_def isWhiteSpace_def httpPattern_def lowerAscii_def)

subsection \<open>Validation\<close>

lemma countEvents_simps [simp]:
  "countEvents P [] = 0"
  "countEvents P (ev # es) = (if P ev then Suc (countEvents P es) else countEvents P es)"
  "countEvents P (es @ es') = countEvents P es + countEvents P es'"
  by (simp_all add: countEvents_def)

lemma validate_refines:
  "orderForm e = Some f \<Longrightarrow>
     validateOrderForm e =
       (case spec_validate e f of
          None \<Rightarrow> ([], True)
        | Some r \<Rightarrow> ([Alert ValidationAlert (rejectionMessage r)], False))"
  by (simp add: validateOrderForm_def spec_validate_def spec_checkName_def spec_checkPhone_def
        spec_checkCity_def spec_checkCart_def phonePattern_def Let_def)

lemma validate_alerts: "list_all isValidationAlert (fst (validateOrderForm e))"
  by (simp add: validateOrderForm_def Let_def split: option.splits)

lemma validate_at_most_one: "length (fst (validateOrderForm e)) \<le> 1"
  by (simp add: validateOrderForm_def Let_def split: option.splits)

lemma validate_accept_silent: "snd (validateOrderForm e) \<Longrightarrow> fst (validateOrderForm e) = []"
  by (auto simp add: validateOrderForm_def Let_def split: option.splits if_splits)

lemma dropWhile_keeps: "x \<in> set xs \<Longrightarrow> \<not> P x \<Longrightarrow> x \<in> set (dropWhile P xs)"
  by (induction xs) auto

lemma trim_keeps: "c \<in> set s \<Longrightarrow> \<not> isWhiteSpace c \<Longrightarrow> c \<in> set (trim s)"
  by (simp add: trim_def dropWhile_keeps)

lemma bad_phone_rejected:
  assumes "c \<in> set ph" and "\<not> phoneChar c"
  shows "trimmedValue (Some ph) \<noteq> [] \<and> \<not> phonePattern (trimmedValue (Some ph))"
proof -
  from assms have ne: "ph \<noteq> []" by auto
  from assms have "\<not> isWhiteSpace c" by (simp add: phoneChar_def)
  with assms have "c \<in> set (trim ph)" by (simp add: trim_keeps)
  with assms ne show ?thesis
    by (auto simp add: trimmedValue_def phonePattern_def list_all_iff)
qed

lemma bad_phone_validate:
  assumes "orderForm e = Some f" and "phoneValue f = Some ph" and "c \<in> set ph" and "\<not> phoneChar c"
  shows "\<not> snd (validateOrderForm e)"
  using assms bad_phone_rejected [of c ph]
  by (simp add: validateOrderForm_def Let_def)

lemma handleSubmit_rejected:
  "\<not> snd (validateOrderForm e) \<Longrightarrow>
     fst (handleSubmit e st) = st \<and>
     snd (handleSubmit e st) = (if submitInProgress st then [] else fst (validateOrderForm e))"
  by (cases "validateOrderForm e") (auto simp add: handleSubmit_def handleSubmit_sync_def)

lemma validation_alert_count:
  "list_all isValidationAlert es \<Longrightarrow>
     countEvents isNetworkCall es = 0 \<and> countEvents isBuild es = 0"
  by (induction es) (auto elim: isValidationAlert.elims)

text \<open>
  Claim C6. With a form on the page, \<open>validateOrderForm\<close> reports the first failing
  check of name, phone, city and cart, in this order, and accepts silently when none
  fails; without a form it rejects silently. It never raises more than one alert. A phone
  value with a character outside digits, plus, white space and minus is rejected, and the
  submit event then leaves the state as it was, requests nothing from the network and
  builds no payload.
\<close>

theorem validation_order:
  "(\<forall>f. orderForm e = Some f \<longrightarrow>
      validateOrderForm e =
        (case spec_validate e f of
           None \<Rightarrow> ([], True)
         | Some r \<Rightarrow> ([Alert ValidationAlert (rejectionMessage r)], False))) \<and>
   (orderForm e = None \<longrightarrow> validateOrderForm e = ([], False)) \<and>
   length (fst (validateOrderForm e)) \<le> 1 \<and>
   (\<forall>f ph c. orderForm e = Some f \<and> phoneValue f = Some ph \<and> c \<in> set ph \<and> \<not> phoneChar c \<longrightarrow>
      \<not> snd (validateOrderForm e) \<and>
      fst (handleSubmit e st) = st \<and>
      countEvents isNetworkCall (snd (handleSubmit e st)) = 0 \<and>
      countEvents isBuild (snd (handleSubmit e st)) = 0)"
proof (intro conjI allI impI)
  fix f assume "orderForm e = Some f"
  then show "validateOrderForm e =
        (case spec_validate e f of
           None \<Rightarrow> ([], True)
         | Some r \<Rightarrow> ([Alert ValidationAlert (rejectionMessage r)], False))"
    by (rule validate_refines)
next
  assume "orderForm e = None"
  then show "validateOrderForm e = ([], False)" by (simp add: validateOrderForm_def)
next
  show "length (fst (validateOrderForm e)) \<le> 1" by (rule validate_at_most_one)
next
  fix f ph c
  assume a: "orderForm e = Some f \<and> phoneValue f = Some ph \<and> c \<in> set ph \<and> \<not> phoneChar c"
  then have r: "\<not> snd (validateOrderForm e)" using bad_phone_validate by blast
  then show "\<not> snd (validateOrderForm e)" .
  from r show "fst (handleSubmit e st) = st" by (simp add: handleSubmit_rejected)
  from r show "countEvents isNetworkCall (snd (handleSubmit e st)) = 0"
    using validation_alert_count [OF validate_alerts [of e]] by (simp add: handleSubmit_rejected)
  from r show "countEvents isBuild (snd (handleSubmit e st)) = 0"
    using validation_alert_count [OF validate_alerts [of e]] by (simp add: handleSubmit_rejected)
qed

subsection \<open>The coordinator\<close>

subsection \<open>The coordinator\<close>

text \<open>
  What holds of every chain: it leaves the guard unset. What holds when the cart reset and
  the lookups return: the chain ends resolved with exactly one terminal notification, and
  where the claim of the fallback applies the local save runs once and decides the
  outcome.
\<close>

lemma resolver_chain: "list_all isChainEvent (fst (getOrdersApiUrlWhenReady e))"
  by (simp add: resolver_unfold split: option.splits settle.splits promise.splits)

lemma sender_chain: "list_all isChainEvent (fst (sendOrderToApi e a od))"
  by (simp add: sendOrderToApi_def fetchCall_def readText_def
        split: option.splits fetch_result.splits body_read.splits)

lemma chain_counts:
  "list_all isChainEvent es \<Longrightarrow>
     countEvents isNotification es = 0 \<and> countEvents isFallback es = 0 \<and>
     countEvents isAddOrder es = 0 \<and> \<not> list_ex isSuccess es \<and> \<not> list_ex isFailure es"
  by (induction es) (auto elim: isChainEvent.elims)

lemmas resolver_counts = chain_counts [OF resolver_chain]

lemmas sender_counts = chain_counts [OF sender_chain]

lemma sender_resolves: "snd (sendOrderToApi e a od) \<noteq> Rejected"
  by (simp add: sendOrderToApi_result)

lemma prefixEvents_simps [simp]:
  "fst (prefixEvents es r) = fst r"
  "fst (snd (prefixEvents es r)) = es @ fst (snd r)"
  "snd (snd (prefixEvents es r)) = snd (snd r)"
  by (simp_all add: prefixEvents_def case_prod_beta)

lemma localized_returns: "lookupReturns e key \<Longrightarrow> \<exists>s. localized e key dflt = Some s"
  by (auto simp add: lookupReturns_def localized_def split: option.splits lookup.splits)

lemma done_guard: "\<not> submitInProgress (fst (done_submit e p saved st))"
  by (simp add: done_submit_def finishOrderFailure_def Let_def case_prod_beta
        split: option.splits)

lemma saveThenDone_guard: "\<not> submitInProgress (fst (saveThenDone e p st))"
  by (simp add: saveThenDone_def case_prod_beta done_guard)

lemma catchHandler_guard: "\<not> submitInProgress (fst (catchHandler e p st))"
  using saveThenDone_guard [of e p st]
  by (cases "saveThenDone e p st" rule: prod_cases3) (auto simp add: catchHandler_def split: call.splits)

lemma orCatch_guard:
  "\<not> submitInProgress (fst step) \<Longrightarrow> \<not> submitInProgress (fst (orCatch e p step))"
  using catchHandler_guard [of e p "fst step"]
  by (cases step rule: prod_cases3)
     (auto simp add: orCatch_def case_prod_beta split: call.splits)

lemma saveLocallyOnly_guard: "\<not> submitInProgress (fst (saveLocallyOnly e p st))"
  using saveThenDone_guard [of e p st] done_guard [of e p False "fst (saveThenDone e p st)"]
  by (cases "saveThenDone e p st" rule: prod_cases3)
     (auto simp add: saveLocallyOnly_def case_prod_beta split: call.splits)

lemma chain_resets_guard: "\<not> submitInProgress (fst (handleSubmit_async e p st))"
  by (simp add: handleSubmit_async_def case_prod_beta catchHandler_guard orCatch_guard
        done_guard saveThenDone_guard saveLocallyOnly_guard split: promise.splits)

lemma sync_in_flight: "submitInProgress st \<Longrightarrow> handleSubmit_sync e st = (st, [], Returned)"
  by (simp add: handleSubmit_sync_def)

lemma finishOrderSuccess_returns:
  assumes "presentationReturns e"
  shows "snd (finishOrderSuccess e) = Returns \<and>
         countEvents isNotification (fst (finishOrderSuccess e)) = 1 \<and>
         countEvents isFallback (fst (finishOrderSuccess e)) = 0 \<and>
         countEvents isAddOrder (fst (finishOrderSuccess e)) = 0 \<and>
         list_ex isSuccess (fst (finishOrderSuccess e)) \<and>
         \<not> list_ex isFailure (fst (finishOrderSuccess e))"
proof -
  from assms obtain s where
    "localized e (js ''orderSuccess'')
       (js ''Order submitted successfully! We will contact you soon.'') = Some s"
    using localized_returns [of e "js ''orderSuccess''"] by (auto simp add: presentationReturns_def)
  with assms show ?thesis
    by (auto simp add: finishOrderSuccess_def presentationReturns_def
          split: option.splits call.splits)
qed

lemma done_returns:
  assumes "presentationReturns e"
  shows "snd (snd (done_submit e p saved st)) = Returns \<and>
         countEvents isNotification (fst (snd (done_submit e p saved st))) = 1 \<and>
         countEvents isFallback (fst (snd (done_submit e p saved st))) = 0 \<and>
         countEvents isAddOrder (fst (snd (done_submit e p saved st))) = 0 \<and>
         (list_ex isSuccess (fst (snd (done_submit e p saved st))) \<longleftrightarrow> saved) \<and>
         (list_ex isFailure (fst (snd (done_submit e p saved st))) \<longleftrightarrow> \<not> saved)"
proof (cases saved)
  case True
  with finishOrderSuccess_returns [OF assms] show ?thesis
    by (simp add: done_submit_def Let_def case_prod_beta)
next
  case False
  from assms obtain m where m:
    "localized e (js ''orderSaveError'')
       (js ''Order could not be saved. Please try again or contact us directly.'') = Some m"
    using localized_returns [of e "js ''orderSaveError''"] by (auto simp add: presentationReturns_def)
  from assms obtain l where l:
    "localized e (js ''confirmOrder'') (js ''Confirm Order'') = Some l"
    using localized_returns [of e "js ''confirmOrder''"] by (auto simp add: presentationReturns_def)
  from False m l show ?thesis
    by (simp add: done_submit_def finishOrderFailure_def Let_def split: option.splits)
qed

lemma save_events:
  "countEvents isNotification (fst (saveOrderToLocalStore e od)) = 0 \<and>
   countEvents isFallback (fst (saveOrderToLocalStore e od)) = 1 \<and>
   countEvents isAddOrder (fst (saveOrderToLocalStore e od)) \<le> 1 \<and>
   \<not> list_ex isSuccess (fst (saveOrderToLocalStore e od)) \<and>
   \<not> list_ex isFailure (fst (saveOrderToLocalStore e od))"
  by (simp add: saveOrderToLocalStore_def split: option.splits call.splits)

lemma saveThenDone_unfold:
  "saveThenDone e p st =
     (fst (done_submit e p (snd (saveOrderToLocalStore e (orderData p))) st),
      fst (saveOrderToLocalStore e (orderData p)) @
      fst (snd (done_submit e p (snd (saveOrderToLocalStore e (orderData p))) st)),
      snd (snd (done_submit e p (snd (saveOrderToLocalStore e (orderData p))) st)))"
  by (simp add: saveThenDone_def case_prod_beta)

lemma saveThenDone_returns:
  assumes "presentationReturns e"
  shows "snd (snd (saveThenDone e p st)) = Returns \<and>
         countEvents isNotification (fst (snd (saveThenDone e p st))) = 1 \<and>
         countEvents isFallback (fst (snd (saveThenDone e p st))) = 1 \<and>
         countEvents isAddOrder (fst (snd (saveThenDone e p st))) \<le> 1 \<and>
         (list_ex isSuccess (fst (snd (saveThenDone e p st))) \<longleftrightarrow>
            snd (saveOrderToLocalStore e (orderData p))) \<and>
         (list_ex isFailure (fst (snd (saveThenDone e p st))) \<longleftrightarrow>
            \<not> snd (saveOrderToLocalStore e (orderData p)))"
  using save_events [of e "orderData p"]
        done_returns [OF assms, of p "snd (saveOrderToLocalStore e (orderData p))" st]
  by (simp add: saveThenDone_unfold)

lemma returning_step:
  "snd (snd step) = Returns \<Longrightarrow> orCatch e p step = (fst step, fst (snd step), Resolved ())"
  by (cases step rule: prod_cases3) (simp add: orCatch_def)

lemma saveLocallyOnly_returns:
  "snd (snd (saveThenDone e p st)) = Returns \<Longrightarrow> saveLocallyOnly e p st = saveThenDone e p st"
  by (cases "saveThenDone e p st" rule: prod_cases3) (simp add: saveLocallyOnly_def)

lemma catchHandler_returns:
  "snd (snd (saveThenDone e p st)) = Returns \<Longrightarrow>
     catchHandler e p st =
       (fst (saveThenDone e p st), fst (snd (saveThenDone e p st)), Resolved ())"
  by (cases "saveThenDone e p st" rule: prod_cases3) (simp add: catchHandler_def)

lemma chain_when_presentation_returns:
  assumes "presentationReturns e"
  shows "handleSubmit_async e p st =
     (case snd (getOrdersApiUrlWhenReady e) of
        Rejected \<Rightarrow>
          (fst (saveThenDone e p st),
           fst (getOrdersApiUrlWhenReady e) @ fst (snd (saveThenDone e p st)), Resolved ())
      | Resolved apiUrl \<Rightarrow>
          if apiUrl \<noteq> None \<and> apiUrl \<noteq> Some [] then
            (if snd (sendOrderToApi e apiUrl (orderData p)) = Resolved True then
               (fst (done_submit e p True st),
                fst (getOrdersApiUrlWhenReady e) @ fst (sendOrderToApi e apiUrl (orderData p)) @
                fst (snd (done_submit e p True st)), Resolved ())
             else
               (fst (saveThenDone e p st),
                fst (getOrdersApiUrlWhenReady e) @ fst (sendOrderToApi e apiUrl (orderData p)) @
                fst (snd (saveThenDone e p st)), Resolved ()))
          else
            (fst (saveThenDone e p st),
             fst (getOrdersApiUrlWhenReady e) @ fst (snd (saveThenDone e p st)), Resolved ()))"
proof -
  have s: "snd (snd (saveThenDone e p st)) = Returns"
    using saveThenDone_returns [OF assms] by simp
  have d: "snd (snd (done_submit e p True st)) = Returns"
    using done_returns [OF assms] by simp
  show ?thesis
    by (simp add: handleSubmit_async_def case_prod_beta prefixEvents_def
          returning_step [OF s] returning_step [OF d] catchHandler_returns [OF s]
          saveLocallyOnly_returns [OF s]
          split: promise.splits bool.splits)
qed

lemma one_notification_when_presentation_returns:
  assumes "presentationReturns e"
  shows "countEvents isNotification (fst (snd (handleSubmit_async e p st))) = 1 \<and>
         snd (snd (handleSubmit_async e p st)) = Resolved ()"
  using saveThenDone_returns [OF assms, of p st] done_returns [OF assms, of p True st]
  by (simp add: chain_when_presentation_returns [OF assms] resolver_counts sender_counts
        split: promise.splits)

lemma fallback_once_when_presentation_returns:
  assumes "presentationReturns e"
      and "snd (getOrdersApiUrlWhenReady e) = Resolved None \<or>
           (\<exists>u. snd (getOrdersApiUrlWhenReady e) = Resolved (Some u) \<and>
                snd (sendOrderToApi e (Some u) (orderData p)) = Resolved False)"
  shows "countEvents isFallback (fst (snd (handleSubmit_async e p st))) = 1 \<and>
         countEvents isAddOrder (fst (snd (handleSubmit_async e p st))) \<le> 1 \<and>
         (list_ex isSuccess (fst (snd (handleSubmit_async e p st))) \<longleftrightarrow>
            snd (saveOrderToLocalStore e (orderData p))) \<and>
         (list_ex isFailure (fst (snd (handleSubmit_async e p st))) \<longleftrightarrow>
            \<not> snd (saveOrderToLocalStore e (orderData p)))"
  using assms(2)
proof
  assume "snd (getOrdersApiUrlWhenReady e) = Resolved None"
  then show ?thesis
    using saveThenDone_returns [OF assms(1), of p st]
    by (simp add: chain_when_presentation_returns [OF assms(1)] resolver_counts)
next
  assume "\<exists>u. snd (getOrdersApiUrlWhenReady e) = Resolved (Some u) \<and>
                snd (sendOrderToApi e (Some u) (orderData p)) = Resolved False"
  then obtain u where u: "snd (getOrdersApiUrlWhenReady e) = Resolved (Some u)"
     and f: "snd (sendOrderToApi e (Some u) (orderData p)) = Resolved False" by blast
  show ?thesis
  proof (cases "u = []")
    case True
    with u show ?thesis
      using saveThenDone_returns [OF assms(1), of p st]
      by (simp add: chain_when_presentation_returns [OF assms(1)] resolver_counts)
  next
    case False
    with u f show ?thesis
      using saveThenDone_returns [OF assms(1), of p st]
      by (simp add: chain_when_presentation_returns [OF assms(1)] resolver_counts sender_counts)
  qed
qed





subsection \<open>The handler\<close>

lemma accept_object:
  assumes "acceptOrder e r = Inr (origin, order)"
  shows "\<exists>fs. order = JObj fs \<and>
           (truthyOpt (map_of fs (js ''fullName'')) \<or> truthyOpt (map_of fs (js ''phone'')))"
proof (cases order)
  case (JObj fs)
  with assms show ?thesis
    by (auto simp add: acceptOrder_def respond_def split: option.splits if_splits sum.splits)
qed (use assms in \<open>auto simp add: acceptOrder_def respond_def split: option.splits if_splits sum.splits\<close>)

lemma accept_origin:
  "acceptOrder e r = Inr (origin, order) \<Longrightarrow>
     requestOrigin e r = Some origin \<and> reqMethod r = js ''POST'' \<and>
     present (githubToken e) \<and> present (githubOwner e) \<and> present (githubRepo e) \<and>
     parseBody (parseJson e) (reqBody r) = Inr order"
  by (auto simp add: acceptOrder_def respond_def split: option.splits if_splits sum.splits)

text \<open>
  The order of the checks, for a POST whose origin line does not throw: missing secrets
  give 500 whatever the body; with the secrets, a parsed body with neither
  \<^verbatim>\<open>fullName\<close> nor \<^verbatim>\<open>phone\<close> gives 400; no call of the store on either path.
\<close>

lemma handler_checks_in_order:
  "(\<forall>origin order. reqMethod r = js ''POST'' \<and> requestOrigin e r = Some origin \<and>
       present (githubToken e) \<and> present (githubOwner e) \<and> present (githubRepo e) \<and>
       parseBody (parseJson e) (reqBody r) = Inr order \<and>
       getProp order (js ''fullName'') = None \<and> getProp order (js ''phone'') = None \<longrightarrow>
       fst (handler e r) = [] \<and> statusOf (snd (handler e r)) = Some 400 \<and>
       (truthy order \<and> typeofObject order \<longrightarrow>
          snd (handler e r) =
            respond origin 400 (Failure (js ''Order must include fullName and phone'')))) \<and>
   (\<forall>origin. reqMethod r = js ''POST'' \<and> requestOrigin e r = Some origin \<and>
       (\<not> present (githubToken e) \<or> \<not> present (githubOwner e) \<or> \<not> present (githubRepo e)) \<longrightarrow>
       handler e r =
         ([], respond origin 500 (Failure (js ''Orders API not configured (missing env)''))) \<and>
       statusOf (snd (handler e r)) = Some 500)"
  by (auto simp add: handler_def acceptOrder_def respond_def)

lemma persist_unfold:
  assumes "githubGet e (getRequest e) = GetReturns f" and "document f = Some data"
      and "unshiftOrder data order = Some newData"
  shows "persistOrder e origin order =
     ([CallGet (getRequest e), CallPut (putRequest e newData (sha f))],
      (case githubPut e (putRequest e newData (sha f)) of
         PutThrows m \<Rightarrow> saveFailed origin
       | PutReturns \<Rightarrow> respond origin 200 (Success (getProp order (js ''id'')))))"
  using assms by (simp add: persistOrder_def split: put_result.splits)

text \<open>
  Claim C4. For an accepted order whose read of the document succeeds, the handler calls
  the store twice, a read and then a write; the write carries the \<^verbatim>\<open>sha\<close> of that read
  whenever the read gave one (and none otherwise). When the write fails the handler
  answers 500 with \<^verbatim>\<open>Failed to save order\<close>; when it succeeds, 200.
\<close>

theorem write_carries_read_token:
  assumes "acceptOrder e r = Inr (origin, order)"
      and "githubGet e (getRequest e) = GetReturns f"
      and "document f = Some data"
      and "unshiftOrder data (assignIdentity (dateNow e) order) = Some newData"
  shows "\<exists>pr. fst (handler e r) = [CallGet (getRequest e), CallPut pr] \<and>
           putContent pr = newData \<and>
           (\<forall>t. sha f = Some t \<and> t \<noteq> [] \<longrightarrow> putSha pr = Some t) \<and>
           (\<not> present (sha f) \<longrightarrow> putSha pr = None) \<and>
           (\<forall>m. githubPut e pr = PutThrows m \<longrightarrow>
              snd (handler e r) = respond origin 500 (Failure (js ''Failed to save order'')) \<and>
              statusOf (snd (handler e r)) = Some 500) \<and>
           (githubPut e pr = PutReturns \<longrightarrow> statusOf (snd (handler e r)) = Some 200)"
proof -
  let ?pr = "putRequest e newData (sha f)"
  have h: "handler e r = persistOrder e origin (assignIdentity (dateNow e) order)"
    using assms(1) by (simp add: handler_def)
  have "fst (handler e r) = [CallGet (getRequest e), CallPut ?pr]"
    by (simp add: h persist_unfold [OF assms(2,3,4)])
  moreover have "putContent ?pr = newData" by (simp add: putRequest_def)
  moreover have "\<forall>t. sha f = Some t \<and> t \<noteq> [] \<longrightarrow> putSha ?pr = Some t"
    by (simp add: putRequest_def present_def)
  moreover have "\<not> present (sha f) \<longrightarrow> putSha ?pr = None"
    by (simp add: putRequest_def)
  moreover have "\<forall>m. githubPut e ?pr = PutThrows m \<longrightarrow>
              snd (handler e r) = respond origin 500 (Failure (js ''Failed to save order'')) \<and>
              statusOf (snd (handler e r)) = Some 500"
    by (simp add: h persist_unfold [OF assms(2,3,4)] saveFailed_def respond_def)
  moreover have "githubPut e ?pr = PutReturns \<longrightarrow> statusOf (snd (handler e r)) = Some 200"
    by (simp add: h persist_unfold [OF assms(2,3,4)] respond_def)
  ultimately show ?thesis by blast
qed

lemma map_of_update_orders:
  "map_of (AList.update k v fs) k' = (if k' = k then Some v else map_of fs k')"
  by (simp add: update_conv')

lemma handler_writes:
  assumes "acceptOrder e r = Inr (origin, order)"
      and "githubGet e (getRequest e) = GetReturns f"
      and "document f = Some (JObj d)"
  shows "fst (handler e r) =
     [CallGet (getRequest e),
      CallPut (putRequest e
        (JObj (AList.update (js ''orders'')
           (JArr (assignIdentity (dateNow e) order # priorOrders d)) d)) (sha f))]"
proof -
  let ?new = "assignIdentity (dateNow e) order"
  let ?doc = "JObj (AList.update (js ''orders'') (JArr (?new # priorOrders d)) d)"
  have u: "unshiftOrder (JObj d) ?new = Some ?doc" by simp
  have h: "handler e r = persistOrder e origin ?new"
    using assms(1) by (simp add: handler_def)
  show ?thesis
    by (simp only: h persist_unfold [OF assms(2,3) u] fst_conv)
qed

lemma handler_writtenOrders:
  assumes "acceptOrder e r = Inr (origin, order)"
      and "githubGet e (getRequest e) = GetReturns f"
      and "document f = Some (JObj d)"
  shows "writtenOrders (fst (handler e r)) =
           [Some (JArr (assignIdentity (dateNow e) order # priorOrders d))]"
  by (simp add: handler_writes [OF assms] writtenOrders_def putRequest_def map_of_update_orders)

text \<open>
  Claim C5. For an accepted order and a fetched document that is an object, the document
  written has the new order in front of the prior sequence under \<^verbatim>\<open>orders\<close> and every
  other property as it was. The prior sequence is the array under \<^verbatim>\<open>orders\<close>, so that
  \<open>N\<close> prior orders give \<open>N + 1\<close> with the new one at index 0 and each prior one moved
  up by one; it is empty when \<^verbatim>\<open>orders\<close> is missing or is not an array.
\<close>

theorem order_prepended:
  assumes "acceptOrder e r = Inr (origin, order)"
      and "githubGet e (getRequest e) = GetReturns f"
      and "document f = Some (JObj d)"
  shows "\<exists>pr. fst (handler e r) = [CallGet (getRequest e), CallPut pr] \<and>
           getProp (putContent pr) (js ''orders'') =
             Some (JArr (assignIdentity (dateNow e) order # priorOrders d)) \<and>
           (\<forall>xs. map_of d (js ''orders'') = Some (JArr xs) \<longrightarrow>
              priorOrders d = xs \<and>
              length (assignIdentity (dateNow e) order # priorOrders d) = length xs + 1 \<and>
              (assignIdentity (dateNow e) order # priorOrders d) ! 0 =
                 assignIdentity (dateNow e) order \<and>
              (\<forall>i < length xs. (assignIdentity (dateNow e) order # priorOrders d) ! (i + 1) = xs ! i)) \<and>
           ((\<forall>xs. map_of d (js ''orders'') \<noteq> Some (JArr xs)) \<longrightarrow> priorOrders d = []) \<and>
           (\<forall>k. k \<noteq> js ''orders'' \<longrightarrow> getProp (putContent pr) k = map_of d k)"
proof -
  let ?new = "assignIdentity (dateNow e) order"
  let ?doc = "JObj (AList.update (js ''orders'') (JArr (?new # priorOrders d)) d)"
  let ?pr = "putRequest e ?doc (sha f)"
  have 1: "fst (handler e r) = [CallGet (getRequest e), CallPut ?pr]"
    by (rule handler_writes [OF assms])
  have 2: "getProp (putContent ?pr) (js ''orders'') = Some (JArr (?new # priorOrders d))"
    by (simp add: putRequest_def map_of_update_orders)
  have 3: "\<forall>k. k \<noteq> js ''orders'' \<longrightarrow> getProp (putContent ?pr) k = map_of d k"
    by (simp add: putRequest_def map_of_update_orders)
  have 4: "\<forall>xs. map_of d (js ''orders'') = Some (JArr xs) \<longrightarrow>
              priorOrders d = xs \<and>
              length (?new # priorOrders d) = length xs + 1 \<and>
              (?new # priorOrders d) ! 0 = ?new \<and>
              (\<forall>i < length xs. (?new # priorOrders d) ! (i + 1) = xs ! i)"
    by (simp add: priorOrders_def)
  have 5: "(\<forall>xs. map_of d (js ''orders'') \<noteq> Some (JArr xs)) \<longrightarrow> priorOrders d = []"
    by (simp add: priorOrders_def split: option.splits json.splits)
  from 1 2 3 4 5 show ?thesis by blast
qed

text \<open>
  Claim C10, amended. An accepted order is an object, and it is stored with every property
  but \<^verbatim>\<open>id\<close> and \<^verbatim>\<open>status\<close> as the client sent it. A truthy \<^verbatim>\<open>id\<close> of the client is
  kept as it is, whatever its form; an \<^verbatim>\<open>id\<close> that is missing or falsy (\<^verbatim>\<open>null\<close>,
  \<^verbatim>\<open>false\<close>, \<^verbatim>\<open>0\<close>, the empty string) is replaced by \<^verbatim>\<open>ord-\<close> and the time. The
  same holds of \<^verbatim>\<open>status\<close> and \<^verbatim>\<open>pending\<close>. This order is the one written in front of
  the document's orders.
\<close>

theorem identity_assignment:
  assumes "acceptOrder e r = Inr (origin, order)"
  shows "(\<exists>fs. order = JObj fs) \<and>
     (\<forall>k. k \<noteq> js ''id'' \<and> k \<noteq> js ''status'' \<longrightarrow>
        getProp (assignIdentity (dateNow e) order) k = getProp order k) \<and>
     (\<forall>v. getProp order (js ''id'') = Some v \<and> truthy v \<longrightarrow>
        getProp (assignIdentity (dateNow e) order) (js ''id'') = Some v) \<and>
     (\<not> truthyOpt (getProp order (js ''id'')) \<longrightarrow>
        getProp (assignIdentity (dateNow e) order) (js ''id'') =
          Some (JStr (js ''ord-'' @ digits (dateNow e)))) \<and>
     (\<forall>v. getProp order (js ''status'') = Some v \<and> truthy v \<longrightarrow>
        getProp (assignIdentity (dateNow e) order) (js ''status'') = Some v) \<and>
     (\<not> truthyOpt (getProp order (js ''status'')) \<longrightarrow>
        getProp (assignIdentity (dateNow e) order) (js ''status'') =
          Some (JStr (js ''pending''))) \<and>
     (\<forall>f d. githubGet e (getRequest e) = GetReturns f \<and> document f = Some (JObj d) \<longrightarrow>
        writtenOrders (fst (handler e r)) =
          [Some (JArr (assignIdentity (dateNow e) order # priorOrders d))])"
proof -
  from assms obtain fs where fs: "order = JObj fs" using accept_object by blast
  have w: "\<forall>f d. githubGet e (getRequest e) = GetReturns f \<and> document f = Some (JObj d) \<longrightarrow>
        writtenOrders (fst (handler e r)) =
          [Some (JArr (assignIdentity (dateNow e) order # priorOrders d))]"
    using handler_writtenOrders [OF assms] by blast
  have p: "(\<forall>k. k \<noteq> js ''id'' \<and> k \<noteq> js ''status'' \<longrightarrow>
        getProp (assignIdentity (dateNow e) order) k = getProp order k) \<and>
     (\<forall>v. getProp order (js ''id'') = Some v \<and> truthy v \<longrightarrow>
        getProp (assignIdentity (dateNow e) order) (js ''id'') = Some v) \<and>
     (\<not> truthyOpt (getProp order (js ''id'')) \<longrightarrow>
        getProp (assignIdentity (dateNow e) order) (js ''id'') =
          Some (JStr (js ''ord-'' @ digits (dateNow e)))) \<and>
     (\<forall>v. getProp order (js ''status'') = Some v \<and> truthy v \<longrightarrow>
        getProp (assignIdentity (dateNow e) order) (js ''status'') = Some v) \<and>
     (\<not> truthyOpt (getProp order (js ''status'')) \<longrightarrow>
        getProp (assignIdentity (dateNow e) order) (js ''status'') =
          Some (JStr (js ''pending'')))"
    unfolding fs
    by (auto simp add: assignIdentity_def orElse_def Let_def map_of_update_orders
          split: option.splits)
  from fs w p show ?thesis by blast
qed

lemmas string_defs = trim_def isWhiteSpace_def httpPattern_def plainHttpPattern_def lowerAscii_def
  stripTrailingSlashes_def phonePattern_def phoneChar_def isDigit_def trimmedValue_def

subsection \<open>The theorems at the examples\<close>

lemma demo_requestUrl: "requestUrl demoEnv (Some demoUrl) = Some demoUrl"
  by (simp add: requestUrl_def demoEnv_def demoUrl_def string_defs)

lemma serverError_requestUrl: "requestUrl serverErrorEnv (Some demoUrl) = Some demoUrl"
  by (simp add: requestUrl_def serverErrorEnv_def demoUrl_def string_defs)

theorem sendOrderToApi_contract_witness:
  "snd (sendOrderToApi demoEnv (Some demoUrl) demoOrder) = Resolved True \<and>
   snd (sendOrderToApi serverErrorEnv (Some demoUrl) demoOrder) = Resolved False"
proof -
  have a: "jsonStringify demoEnv demoOrder = Some (js ''{}'')"
    by (simp add: demoEnv_def serialize_def)
  have b: "fetch demoEnv demoUrl (js ''{}'') = FetchResponse 200 (TextResolves (js ''not json''))"
    by (simp add: demoEnv_def respond200_def)
  have c: "jsonStringify serverErrorEnv demoOrder = Some (js ''{}'')"
    by (simp add: serverErrorEnv_def serialize_def)
  have d: "fetch serverErrorEnv demoUrl (js ''{}'') = FetchResponse 500 (TextResolves (js ''{}''))"
    by (simp add: serverErrorEnv_def respond500_def)
  show ?thesis
    using sendOrderToApi_contract [of demoEnv "Some demoUrl" demoOrder]
          sendOrderToApi_contract [of serverErrorEnv "Some demoUrl" demoOrder]
          demo_requestUrl serverError_requestUrl a b c d
    by simp
qed






theorem validation_order_witness:
  "orderForm badPhoneEnv = Some badPhoneForm \<and> phoneValue badPhoneForm = Some (js ''0612x45678'') \<and>
   120 \<in> set (js ''0612x45678'') \<and> \<not> phoneChar 120 \<and>
   \<not> snd (validateOrderForm badPhoneEnv) \<and>
   countEvents isNetworkCall (snd (handleSubmit badPhoneEnv idleState)) = 0 \<and>
   countEvents isBuild (snd (handleSubmit badPhoneEnv idleState)) = 0 \<and>
   orderForm demoEnv = Some demoForm \<and> spec_validate demoEnv demoForm = None \<and>
   validateOrderForm demoEnv = ([], True)"
proof -
  have a: "orderForm badPhoneEnv = Some badPhoneForm" by (simp add: badPhoneEnv_def)
  have b: "phoneValue badPhoneForm = Some (js ''0612x45678'')" by (simp add: badPhoneForm_def)
  have c: "120 \<in> set (js ''0612x45678'') \<and> \<not> phoneChar 120" by (simp add: string_defs)
  have d: "orderForm demoEnv = Some demoForm" by (simp add: demoEnv_def)
  have e: "spec_validate demoEnv demoForm = None"
    by (simp add: spec_validate_def spec_checkName_def spec_checkPhone_def spec_checkCity_def
          spec_checkCart_def demoEnv_def demoForm_def readCartItems_def readCartRaw_def
          parseCart_def string_defs)
  have bad: "\<not> snd (validateOrderForm badPhoneEnv) \<and>
      countEvents isNetworkCall (snd (handleSubmit badPhoneEnv idleState)) = 0 \<and>
      countEvents isBuild (snd (handleSubmit badPhoneEnv idleState)) = 0"
    using validation_order [of badPhoneEnv idleState] a b c by blast
  have good: "validateOrderForm demoEnv = ([], True)"
    using validation_order [of demoEnv idleState] d e by simp
  from a b c d e bad good show ?thesis by blast
qed

lemma demo_accept:
  "acceptOrder demoServer demoRequest = Inr (js ''https://shop.example'', JObj demoBody)"
  by (simp add: acceptOrder_def requestOrigin_def present_def parseBody_def demoServer_def
        demoRequest_def demoBody_def)

lemma conflict_accept:
  "acceptOrder conflictServer demoRequest = Inr (js ''https://shop.example'', JObj demoBody)"
  by (simp add: acceptOrder_def requestOrigin_def present_def parseBody_def conflictServer_def
        demoRequest_def demoBody_def)

lemma zeroId_accept:
  "acceptOrder demoServer zeroIdRequest = Inr (js ''https://shop.example'', JObj zeroIdBody)"
  by (simp add: acceptOrder_def requestOrigin_def present_def parseBody_def demoServer_def
        zeroIdRequest_def zeroIdBody_def)

lemma customId_accept:
  "acceptOrder demoServer customIdRequest = Inr (js ''https://shop.example'', JObj customIdBody)"
  by (simp add: acceptOrder_def requestOrigin_def present_def parseBody_def demoServer_def
        customIdRequest_def customIdBody_def)

lemma demo_now: "digits (dateNow demoServer) = js ''1700000000000''"
  by (simp add: demoServer_def digits.simps)

lemma demo_get:
  "githubGet demoServer (getRequest demoServer) =
     GetReturns \<lparr>document = Some (JObj [(js ''orders'', JArr [olderOrder])]),
       sha = Some (js ''3d21ec53a331a6f037a91c368710b99387d012c1'')\<rparr>"
  by (simp add: demoServer_def storedFile_def)

lemma conflict_get:
  "githubGet conflictServer (getRequest conflictServer) =
     GetReturns \<lparr>document = Some (JObj []),
       sha = Some (js ''3d21ec53a331a6f037a91c368710b99387d012c1'')\<rparr>"
  by (simp add: conflictServer_def emptyFile_def)

text \<open>
  An \<^verbatim>\<open>id\<close> that the client supplied is not always kept: the number 0 is replaced by
  \<^verbatim>\<open>ord-\<close> and the time in the order that is written.
\<close>

theorem client_id_counterexample:
  "getProp (JObj zeroIdBody) (js ''id'') = Some (JNum 0) \<and>
   writtenOrders (fst (handler demoServer zeroIdRequest)) =
     [Some (JArr [JObj [(js ''fullName'', JStr (js ''Amal'')),
                        (js ''id'', JStr (js ''ord-1700000000000'')),
                        (js ''status'', JStr (js ''pending''))],
                  olderOrder])]"
proof -
  have "writtenOrders (fst (handler demoServer zeroIdRequest)) =
      [Some (JArr (assignIdentity (dateNow demoServer) (JObj zeroIdBody) #
                   priorOrders [(js ''orders'', JArr [olderOrder])]))]"
    by (rule handler_writtenOrders [OF zeroId_accept demo_get]) simp
  then show ?thesis
    by (simp add: assignIdentity_def orElse_def Let_def demo_now zeroIdBody_def priorOrders_def)
qed

theorem identity_assignment_witness:
  "acceptOrder demoServer customIdRequest = Inr (js ''https://shop.example'', JObj customIdBody) \<and>
   getProp (JObj customIdBody) (js ''id'') = Some (JStr (js ''my-id'')) \<and>
   getProp (assignIdentity (dateNow demoServer) (JObj customIdBody)) (js ''id'') =
     Some (JStr (js ''my-id'')) \<and>
   getProp (assignIdentity (dateNow demoServer) (JObj customIdBody)) (js ''status'') =
     Some (JStr (js ''paid'')) \<and>
   acceptOrder demoServer demoRequest = Inr (js ''https://shop.example'', JObj demoBody) \<and>
   getProp (JObj demoBody) (js ''id'') = None \<and>
   getProp (assignIdentity (dateNow demoServer) (JObj demoBody)) (js ''id'') =
     Some (JStr (js ''ord-1700000000000'')) \<and>
   getProp (assignIdentity (dateNow demoServer) (JObj demoBody)) (js ''status'') =
     Some (JStr (js ''pending'')) \<and>
   getProp (assignIdentity (dateNow demoServer) (JObj demoBody)) (js ''phone'') =
     Some (JStr (js ''+212 612345678''))"
proof -
  have a: "getProp (JObj customIdBody) (js ''id'') = Some (JStr (js ''my-id'')) \<and>
           truthy (JStr (js ''my-id''))"
    by (simp add: customIdBody_def)
  have b: "getProp (JObj customIdBody) (js ''status'') = Some (JStr (js ''paid'')) \<and>
           truthy (JStr (js ''paid''))"
    by (simp add: customIdBody_def)
  have c: "getProp (JObj demoBody) (js ''id'') = None \<and>
           getProp (JObj demoBody) (js ''status'') = None \<and>
           getProp (JObj demoBody) (js ''phone'') = Some (JStr (js ''+212 612345678'')) \<and>
           js ''phone'' \<noteq> js ''id'' \<and> js ''phone'' \<noteq> js ''status''"
    by (simp add: demoBody_def)
  show ?thesis
    using identity_assignment [OF customId_accept] identity_assignment [OF demo_accept]
          customId_accept demo_accept a b c demo_now
    by (simp del: getProp.simps truthy.simps)
qed

theorem order_prepended_witness:
  "acceptOrder demoServer demoRequest = Inr (js ''https://shop.example'', JObj demoBody) \<and>
   writtenOrders (fst (handler demoServer demoRequest)) =
     [Some (JArr [assignIdentity (dateNow demoServer) (JObj demoBody), olderOrder])]"
proof -
  obtain pr where
    1: "fst (handler demoServer demoRequest) = [CallGet (getRequest demoServer), CallPut pr]" and
    2: "getProp (putContent pr) (js ''orders'') =
          Some (JArr (assignIdentity (dateNow demoServer) (JObj demoBody) #
                      priorOrders [(js ''orders'', JArr [olderOrder])]))"
    using order_prepended [OF demo_accept demo_get] by auto
  from 1 2 demo_accept show ?thesis
    by (simp add: writtenOrders_def priorOrders_def)
qed

theorem write_carries_read_token_witness:
  "acceptOrder conflictServer demoRequest = Inr (js ''https://shop.example'', JObj demoBody) \<and>
   sentTokens (fst (handler conflictServer demoRequest)) =
     [Some (js ''3d21ec53a331a6f037a91c368710b99387d012c1'')] \<and>
   statusOf (snd (handler conflictServer demoRequest)) = Some 500"
proof -
  have u: "unshiftOrder (JObj []) (assignIdentity (dateNow conflictServer) (JObj demoBody)) =
      Some (JObj [(js ''orders'', JArr [assignIdentity (dateNow conflictServer) (JObj demoBody)])])"
    by (simp add: priorOrders_def)
  obtain pr where
    1: "fst (handler conflictServer demoRequest) = [CallGet (getRequest conflictServer), CallPut pr]" and
    2: "\<forall>t. Some (js ''3d21ec53a331a6f037a91c368710b99387d012c1'') = Some t \<and> t \<noteq> [] \<longrightarrow>
           putSha pr = Some t" and
    3: "\<forall>m. githubPut conflictServer pr = PutThrows m \<longrightarrow>
           statusOf (snd (handler conflictServer demoRequest)) = Some 500"
    using write_carries_read_token [OF conflict_accept conflict_get _ u] by auto
  have 4: "githubPut conflictServer pr = PutThrows (js ''GitHub PUT failed: 409'')"
    by (simp add: conflictServer_def conflictingPut_def)
  from 2 have 5: "putSha pr = Some (js ''3d21ec53a331a6f037a91c368710b99387d012c1'')" by simp
  from 1 3 4 5 conflict_accept show ?thesis by simp
qed

lemma throwingCart_resolver:
  "getOrdersApiUrlWhenReady throwingCartEnv =
     ([StoreGetUrl, StoreRefresh, StoreGetUrl], Resolved (Some demoUrl))"
  by (simp add: resolver_unfold throwingCartEnv_def demoStore_def demo_tryGet0 demo_tryGet1)

lemma throwingCart_send:
  "sendOrderToApi throwingCartEnv (Some demoUrl) od =
     ([Fetch demoUrl (js ''{}'')], Resolved True)"
  by (simp add: sendOrderToApi_def requestUrl_def fetchCall_def readText_def responseOk_def
        throwingCartEnv_def demoUrl_def serialize_def respond200_def string_defs)

lemma demoUrl_truthy: "demoUrl \<noteq> []"
  by (simp add: demoUrl_def)

lemma throwingCart_done:
  "fst (snd (done_submit throwingCartEnv p True st)) = [ClearCart] \<and>
   snd (snd (done_submit throwingCartEnv p True st)) = Throws"
  by (simp add: done_submit_def finishOrderSuccess_def throwingCartEnv_def Let_def)

lemma throwingCart_save:
  "saveOrderToLocalStore throwingCartEnv od = ([SaveToLocalStore, StoreAddOrder od], True)"
  by (simp add: saveOrderToLocalStore_def throwingCartEnv_def demoStore_def)

lemma demoPending_order: "orderData demoPending = demoOrder"
  by (simp add: demoPending_def)

lemma throwingCart_chain:
  "fst (snd (handleSubmit_async throwingCartEnv p st)) =
     [StoreGetUrl, StoreRefresh, StoreGetUrl, Fetch demoUrl (js ''{}''), ClearCart,
      SaveToLocalStore, StoreAddOrder (orderData p), ClearCart] \<and>
   snd (snd (handleSubmit_async throwingCartEnv p st)) = Rejected"
  by (simp add: handleSubmit_async_def throwingCart_resolver throwingCart_send demoUrl_truthy
        orCatch_def catchHandler_def saveThenDone_def throwingCart_done
        throwingCart_save prefixEvents_def case_prod_beta)

lemma throwingCart_sync:
  "fst (snd (handleSubmit_sync throwingCartEnv idleState)) = [BuildPayload] \<and>
   (\<exists>p. snd (snd (handleSubmit_sync throwingCartEnv idleState)) = Started p)"
  by (simp add: handleSubmit_sync_def validateOrderForm_def buildOrderPayload_def localized_def
        throwingCartEnv_def demoForm_def idleState_def readCartItems_def readCartRaw_def
        parseCart_def string_defs Let_def)

lemma throwingCart_submit:
  "countEvents isNotification (snd (handleSubmit throwingCartEnv idleState)) = 0"
proof -
  obtain p where p: "snd (snd (handleSubmit_sync throwingCartEnv idleState)) = Started p"
    using throwingCart_sync by blast
  have "snd (handleSubmit throwingCartEnv idleState) =
          [BuildPayload] @
          fst (snd (handleSubmit_async throwingCartEnv p
                      (fst (handleSubmit_sync throwingCartEnv idleState))))"
    using p throwingCart_sync
    by (cases "handleSubmit_sync throwingCartEnv idleState" rule: prod_cases3)
       (simp add: handleSubmit_def case_prod_beta)
  then show ?thesis by (simp add: throwingCart_chain)
qed

text \<open>
  Claim C1. The guarantee of one terminal notification fails on the code when
  \<^verbatim>\<open>window.clearCartAfterOrder\<close> throws. On a page whose endpoint answers 200,
  \<^verbatim>\<open>done\<close> resets the guard and \<^verbatim>\<open>finishOrderSuccess\<close> throws before its alert; the
  final \<^verbatim>\<open>.catch\<close> saves the order locally and calls \<^verbatim>\<open>done\<close> again, which throws
  again. The chain ends rejected, with the guard unset, the order sent and saved, and no
  notification at all; the submit event as a whole raises none either.
\<close>

theorem notification_lost_when_cart_reset_throws:
  "snd (getOrdersApiUrlWhenReady throwingCartEnv) = Resolved (Some demoUrl) \<and>
   snd (sendOrderToApi throwingCartEnv (Some demoUrl) (orderData demoPending)) = Resolved True \<and>
   fst (snd (handleSubmit_async throwingCartEnv demoPending busyState)) =
     [StoreGetUrl, StoreRefresh, StoreGetUrl, Fetch demoUrl (js ''{}''), ClearCart,
      SaveToLocalStore, StoreAddOrder demoOrder, ClearCart] \<and>
   countEvents isNotification
     (fst (snd (handleSubmit_async throwingCartEnv demoPending busyState))) = 0 \<and>
   snd (snd (handleSubmit_async throwingCartEnv demoPending busyState)) = Rejected \<and>
   \<not> submitInProgress (fst (handleSubmit_async throwingCartEnv demoPending busyState)) \<and>
   countEvents isNotification (snd (handleSubmit throwingCartEnv idleState)) = 0"
  by (simp add: throwingCart_resolver throwingCart_send throwingCart_chain demoPending_order
        chain_resets_guard throwingCart_submit)

lemma throwingCartError_resolver:
  "getOrdersApiUrlWhenReady throwingCartErrorEnv =
     ([StoreGetUrl, StoreRefresh, StoreGetUrl], Resolved (Some demoUrl))"
  by (simp add: resolver_unfold throwingCartErrorEnv_def demoStore_def demo_tryGet0 demo_tryGet1)

lemma throwingCartLocal_resolver:
  "getOrdersApiUrlWhenReady throwingCartLocalEnv = ([], Resolved None)"
  by (simp add: resolver_unfold throwingCartLocalEnv_def localOnlyStore_def
        getFallbackOrdersApiUrl_def attributeTrimmed_def demoForm_def)

lemma throwingCartError_send:
  "sendOrderToApi throwingCartErrorEnv (Some demoUrl) demoOrder =
     ([Fetch demoUrl (js ''{}'')], Resolved False)"
  by (simp add: sendOrderToApi_def requestUrl_def fetchCall_def readText_def responseOk_def
        throwingCartErrorEnv_def demoUrl_def serialize_def respond500_def string_defs)

lemma throwingCartError_done:
  "done_submit throwingCartErrorEnv demoPending True st =
     (st\<lparr>submitInProgress := False,
         submitBtn := map_option (\<lambda>b. b\<lparr>disabled := False, textContent := js ''Confirm Order''\<rparr>)
                        (submitBtn st)\<rparr>, [ClearCart], Throws)"
  by (simp add: done_submit_def finishOrderSuccess_def throwingCartErrorEnv_def demoPending_def)

lemma throwingCartError_save:
  "saveOrderToLocalStore throwingCartErrorEnv demoOrder =
     ([SaveToLocalStore, StoreAddOrder demoOrder], True)"
  by (simp add: saveOrderToLocalStore_def throwingCartErrorEnv_def demoStore_def)

lemma throwingCartLocal_save:
  "saveOrderToLocalStore throwingCartLocalEnv demoOrder =
     ([SaveToLocalStore, StoreAddOrder demoOrder], True)"
  by (simp add: saveOrderToLocalStore_def throwingCartLocalEnv_def localOnlyStore_def)

lemma throwingCartLocal_done:
  "done_submit throwingCartLocalEnv demoPending True st =
     (st\<lparr>submitInProgress := False,
         submitBtn := map_option (\<lambda>b. b\<lparr>disabled := False, textContent := js ''Confirm Order''\<rparr>)
                        (submitBtn st)\<rparr>, [ClearCart], Throws)"
  by (simp add: done_submit_def finishOrderSuccess_def throwingCartLocalEnv_def demoPending_def)

lemma throwingCartLocal_done_false:
  "fst (snd (done_submit throwingCartLocalEnv demoPending False st)) =
     [Alert FailureAlert
        (js ''Order could not be saved. Please try again or contact us directly.'')] \<and>
   snd (snd (done_submit throwingCartLocalEnv demoPending False st)) = Returns"
  by (simp add: done_submit_def finishOrderFailure_def localized_def throwingCartLocalEnv_def
        Let_def split: option.splits)

text \<open>
  Claim C3. The fallback is not attempted exactly once, and its result does not decide the
  outcome, when \<^verbatim>\<open>window.clearCartAfterOrder\<close> throws. With a URL and a submitter
  that resolves to false, the local save returns true, \<^verbatim>\<open>done\<close> throws, and the final
  \<^verbatim>\<open>.catch\<close> saves a second time: two attempts and no success notification. Without a
  URL the save returns true, \<^verbatim>\<open>done\<close> throws, and the handler of the \<^verbatim>\<open>try\<close> calls
  \<^verbatim>\<open>done(false)\<close>: the attempt ends in the failure notification.
\<close>

theorem fallback_repeated_when_cart_reset_throws:
  "snd (getOrdersApiUrlWhenReady throwingCartErrorEnv) = Resolved (Some demoUrl) \<and>
   snd (sendOrderToApi throwingCartErrorEnv (Some demoUrl) (orderData demoPending)) =
     Resolved False \<and>
   snd (saveOrderToLocalStore throwingCartErrorEnv (orderData demoPending)) \<and>
   fst (snd (handleSubmit_async throwingCartErrorEnv demoPending busyState)) =
     [StoreGetUrl, StoreRefresh, StoreGetUrl, Fetch demoUrl (js ''{}''),
      SaveToLocalStore, StoreAddOrder demoOrder, ClearCart,
      SaveToLocalStore, StoreAddOrder demoOrder, ClearCart] \<and>
   countEvents isFallback
     (fst (snd (handleSubmit_async throwingCartErrorEnv demoPending busyState))) = 2 \<and>
   \<not> list_ex isSuccess (fst (snd (handleSubmit_async throwingCartErrorEnv demoPending busyState))) \<and>
   snd (getOrdersApiUrlWhenReady throwingCartLocalEnv) = Resolved None \<and>
   snd (saveOrderToLocalStore throwingCartLocalEnv (orderData demoPending)) \<and>
   fst (snd (handleSubmit_async throwingCartLocalEnv demoPending busyState)) =
     [SaveToLocalStore, StoreAddOrder demoOrder, ClearCart,
      Alert FailureAlert
        (js ''Order could not be saved. Please try again or contact us directly.'')] \<and>
   \<not> list_ex isSuccess (fst (snd (handleSubmit_async throwingCartLocalEnv demoPending busyState))) \<and>
   list_ex isFailure (fst (snd (handleSubmit_async throwingCartLocalEnv demoPending busyState)))"
proof -
  have remote:
    "fst (snd (handleSubmit_async throwingCartErrorEnv demoPending busyState)) =
       [StoreGetUrl, StoreRefresh, StoreGetUrl, Fetch demoUrl (js ''{}''),
        SaveToLocalStore, StoreAddOrder demoOrder, ClearCart,
        SaveToLocalStore, StoreAddOrder demoOrder, ClearCart]"
    by (simp add: handleSubmit_async_def throwingCartError_resolver throwingCartError_send
          demoUrl_truthy demoPending_order orCatch_def catchHandler_def saveThenDone_def
          throwingCartError_done throwingCartError_save prefixEvents_def)
  have local:
    "fst (snd (handleSubmit_async throwingCartLocalEnv demoPending busyState)) =
       [SaveToLocalStore, StoreAddOrder demoOrder, ClearCart,
        Alert FailureAlert
          (js ''Order could not be saved. Please try again or contact us directly.'')]"
    by (simp add: handleSubmit_async_def throwingCartLocal_resolver demoPending_order orCatch_def
          saveLocallyOnly_def saveThenDone_def throwingCartLocal_save prefixEvents_def
          throwingCartLocal_done throwingCartLocal_done_false case_prod_beta)
  show ?thesis
    by (simp add: remote local throwingCartError_resolver throwingCartError_send
          throwingCartLocal_resolver demoPending_order throwingCartError_save
          throwingCartLocal_save)
qed

lemma badReferer_origin:
  "requestOrigin demoServer badRefererRequest = None \<and>
   requestOrigin unconfiguredServer badRefererRequest = None"
  by (simp add: requestOrigin_def present_def badRefererRequest_def demoServer_def
        unconfiguredServer_def httpOrigin_def string_defs)

text \<open>
  Claim C9. A POST with no \<^verbatim>\<open>Origin\<close> header and a \<^verbatim>\<open>Referer\<close> that is not a URL
  makes line 79 throw before any check: with a secret missing the handler sends no 500,
  and with the secrets present and an empty object as body it sends no 400; it sends
  nothing and calls the store not at all.
\<close>

theorem handler_throws_on_unparsable_referer:
  "reqMethod badRefererRequest = js ''POST'' \<and>
   githubToken unconfiguredServer = None \<and>
   handler unconfiguredServer badRefererRequest = ([], Threw) \<and>
   statusOf (snd (handler unconfiguredServer badRefererRequest)) = None \<and>
   parseBody (parseJson demoServer) (reqBody badRefererRequest) = Inr (JObj []) \<and>
   handler demoServer badRefererRequest = ([], Threw) \<and>
   statusOf (snd (handler demoServer badRefererRequest)) = None"
  by (simp add: handler_def acceptOrder_def badReferer_origin)
     (simp add: badRefererRequest_def unconfiguredServer_def parseBody_def)

end
